theory Spec2Isabelle
  imports Complex_Main "HOL-Library.Multiset"
begin

section \<open>Python values\<close>

text \<open>
  The provider's payloads reach the service as decoded JSON (\<^verbatim>\<open>response.json()\<close>), so
  every value the service touches is one of the Python values below. \<open>JNull\<close> is
  Python's \<^verbatim>\<open>None\<close>. A dictionary is an association list in insertion order; a
  decoded JSON object never repeats a key. Floats are modelled as reals: rounding and
  NaN are outside the model. Strings are lists of characters with code points below 256.
\<close>

datatype json =
    JNull
  | JBool bool
  | JInt int
  | JFloat real
  | JStr string
  | JList "json list"
  | JDict "(string \<times> json) list"

datatype exn =
    KeyError
  | TypeError
  | ValueError
  | AttributeError
  | IntegrityError
  | DoesNotExist
  | MultipleObjectsReturned
  | DatabaseError

text \<open>Truth value testing, as \<^verbatim>\<open>if x:\<close> does it.\<close>

fun truthy :: "json \<Rightarrow> bool" where
  "truthy JNull = False"
| "truthy (JBool b) = b"
| "truthy (JInt n) = (n \<noteq> 0)"
| "truthy (JFloat r) = (r \<noteq> 0)"
| "truthy (JStr s) = (s \<noteq> [])"
| "truthy (JList xs) = (xs \<noteq> [])"
| "truthy (JDict kvs) = (kvs \<noteq> [])"

fun starts_with :: "string \<Rightarrow> string \<Rightarrow> bool" where
  "starts_with [] s = True"
| "starts_with (c # cs) [] = False"
| "starts_with (c # cs) (d # ds) = (c = d \<and> starts_with cs ds)"

fun substring :: "string \<Rightarrow> string \<Rightarrow> bool" where
  "substring k [] = (k = [])"
| "substring k (c # cs) = (starts_with k (c # cs) \<or> substring k cs)"

text \<open>\<^verbatim>\<open>k in v\<close> for a string \<open>k\<close>: key membership in a dictionary, element membership in
  a list, substring test in a string, TypeError for a value that is not iterable.\<close>

fun py_in :: "string \<Rightarrow> json \<Rightarrow> exn + bool" where
  "py_in k (JDict kvs) = Inr (k \<in> set (map fst kvs))"
| "py_in k (JList xs) = Inr (JStr k \<in> set xs)"
| "py_in k (JStr s) = Inr (substring k s)"
| "py_in k JNull = Inl TypeError"
| "py_in k (JBool b) = Inl TypeError"
| "py_in k (JInt n) = Inl TypeError"
| "py_in k (JFloat r) = Inl TypeError"

text \<open>\<^verbatim>\<open>v[k]\<close> for a string \<open>k\<close>: only a dictionary can be indexed by a string.\<close>

fun py_getitem :: "json \<Rightarrow> string \<Rightarrow> exn + json" where
  "py_getitem (JDict kvs) k = (case map_of kvs k of None \<Rightarrow> Inl KeyError | Some v \<Rightarrow> Inr v)"
| "py_getitem JNull k = Inl TypeError"
| "py_getitem (JBool b) k = Inl TypeError"
| "py_getitem (JInt n) k = Inl TypeError"
| "py_getitem (JFloat r) k = Inl TypeError"
| "py_getitem (JStr s) k = Inl TypeError"
| "py_getitem (JList xs) k = Inl TypeError"

text \<open>\<^verbatim>\<open>d.get(k, default)\<close> on a dictionary.\<close>

definition dict_get :: "(string \<times> json) list \<Rightarrow> string \<Rightarrow> json \<Rightarrow> json" where
  "dict_get kvs k dflt = (case map_of kvs k of None \<Rightarrow> dflt | Some v \<Rightarrow> v)"

text \<open>\<^verbatim>\<open>for x in v\<close>: the items of a list, the characters of a string, the keys of a
  dictionary; TypeError for anything else.\<close>

fun py_iter :: "json \<Rightarrow> exn + json list" where
  "py_iter (JList xs) = Inr xs"
| "py_iter (JStr s) = Inr (map (\<lambda>c. JStr [c]) s)"
| "py_iter (JDict kvs) = Inr (map (\<lambda>kv. JStr (fst kv)) kvs)"
| "py_iter JNull = Inl TypeError"
| "py_iter (JBool b) = Inl TypeError"
| "py_iter (JInt n) = Inl TypeError"
| "py_iter (JFloat r) = Inl TypeError"

text \<open>\<^verbatim>\<open>d.update(other)\<close>: a key already present keeps its place and takes the new value.\<close>

fun dict_set :: "(string \<times> json) list \<Rightarrow> string \<Rightarrow> json \<Rightarrow> (string \<times> json) list" where
  "dict_set [] k v = [(k, v)]"
| "dict_set ((k', v') # kvs) k v = (if k' = k then (k, v) # kvs else (k', v') # dict_set kvs k v)"

fun dict_update :: "(string \<times> json) list \<Rightarrow> (string \<times> json) list \<Rightarrow> (string \<times> json) list" where
  "dict_update d [] = d"
| "dict_update d ((k, v) # kvs) = dict_update (dict_set d k v) kvs"

text \<open>\<^verbatim>\<open>str(n)\<close> for an integer, as the f-strings of the cache keys format a page number.\<close>

fun digits :: "nat \<Rightarrow> string" where
  "digits n = (if n < 10 then [''0123456789'' ! n] else digits (n div 10) @ [''0123456789'' ! (n mod 10)])"

declare digits.simps [simp del]

definition str_int :: "int \<Rightarrow> string" where
  "str_int i = (if i < 0 then CHR ''-'' # digits (nat (- i)) else digits (nat i))"

text \<open>\<^verbatim>\<open>str.isspace\<close> on one character (code points below 256) and \<^verbatim>\<open>str.strip()\<close>.\<close>

definition isspace :: "char \<Rightarrow> bool" where
  "isspace c = ((of_char c :: nat) \<in> set [9, 10, 11, 12, 13, 28, 29, 30, 31, 32, 133, 160])"

definition strip :: "string \<Rightarrow> string" where
  "strip s = rev (dropWhile isspace (rev (dropWhile isspace s)))"

section \<open>The local store, the cache and the provider\<close>

text \<open>
  The three tables of \<^verbatim>\<open>models.py\<close>, as lists of rows in insertion order. \<open>movie_pk\<close> and
  \<open>genre_pk\<close> are the surrogate keys Django adds; a \<^verbatim>\<open>MovieGenre\<close> row holds the two
  foreign keys. The timestamp columns are left out: nothing in the service reads them.
\<close>

type_synonym date = "nat \<times> nat \<times> nat"

record movie =
  movie_pk :: nat
  tmdb_id :: int
  title :: string
  overview :: string
  release_date :: "date option"
  vote_average :: real
  popularity :: real
  poster_path :: string
  backdrop_path :: string

record genre =
  genre_pk :: nat
  genre_tmdb_id :: int
  name :: string

record movie_genre =
  link_movie :: nat
  link_genre :: nat

text \<open>Everything the service does besides returning a value is recorded, in order.\<close>

datatype effect =
    CacheGet string
  | CacheSet string json int
  | RemoteGet string "(string \<times> json) list"
  | LogError

datatype request_exception = Timeout | ConnectionError | HTTPError nat

datatype reply = Raises request_exception | Returns json

text \<open>
  The state the service reads and writes: the tables, Django's cache, and the trace of
  effects so far. Expiry of cache entries is not modelled: \<open>cache\<close> is what the cache
  holds when the service is called.
\<close>

record world =
  movies :: "movie list"
  genres :: "genre list"
  movie_genres :: "movie_genre list"
  cache :: "string \<rightharpoonup> json"
  effects :: "effect list"

text \<open>
  What the service takes from outside the repository, as parameters:
  \<^item> the settings \<^verbatim>\<open>TMDB_API_KEY\<close>, \<^verbatim>\<open>TMDB_BASE_URL\<close> and \<^verbatim>\<open>CACHE_TIMEOUT\<close>;
  \<^item> the provider: \<open>remote\<close> gives, for the effects so far and a URL with its query
    parameters, what lines 28 to 30 of \<^verbatim>\<open>_make_request\<close> produce: \<open>Raises\<close> when
    \<^verbatim>\<open>requests.get\<close> or \<^verbatim>\<open>raise_for_status\<close> raises a RequestException (a timeout, a
    connection error, the HTTPError of an error status), \<open>Returns j\<close> for the decoded body;
  \<^item> how Django's model fields take a Python value on a write or a lookup: \<open>None\<close> when
    the field rejects it (the ORM raises), the stored value otherwise. \<open>char_field\<close> gets
    the field's \<^verbatim>\<open>max_length\<close> (\<open>None\<close> for a TextField);
  \<^item> \<^verbatim>\<open>strptime(s, '%Y-%m-%d').date()\<close>: \<open>None\<close> when it raises ValueError;
  \<^item> the database's case-insensitive string match behind \<^verbatim>\<open>name__iexact\<close>.
\<close>

record env =
  api_key :: string
  base_url :: string
  cache_timeout :: "string \<Rightarrow> int"
  remote :: "effect list \<Rightarrow> string \<Rightarrow> (string \<times> json) list \<Rightarrow> reply"
  int_field :: "json \<Rightarrow> int option"
  float_field :: "json \<Rightarrow> real option"
  char_field :: "nat option \<Rightarrow> json \<Rightarrow> string option"
  strptime :: "string \<Rightarrow> date option"
  iexact :: "string \<Rightarrow> string \<Rightarrow> bool"

definition cache_get :: "world \<Rightarrow> string \<Rightarrow> world \<times> json" where
  "cache_get w k =
     (w\<lparr>effects := effects w @ [CacheGet k]\<rparr>, case cache w k of None \<Rightarrow> JNull | Some v \<Rightarrow> v)"

definition cache_set :: "world \<Rightarrow> string \<Rightarrow> json \<Rightarrow> int \<Rightarrow> world" where
  "cache_set w k v ttl =
     w\<lparr>cache := (cache w)(k \<mapsto> v), effects := effects w @ [CacheSet k v ttl]\<rparr>"

text \<open>\<^verbatim>\<open>_make_request\<close> (lines 19 to 33): \<open>JNull\<close> is the \<^verbatim>\<open>None\<close> of line 33.\<close>

definition make_request :: "env \<Rightarrow> world \<Rightarrow> string \<Rightarrow> (string \<times> json) list \<Rightarrow> world \<times> json" where
  "make_request L w endpoint params =
     (let url = base_url L @ ''/'' @ endpoint;
          default_params = dict_update [(''api_key'', JStr (api_key L))] params;
          w' = w\<lparr>effects := effects w @ [RemoteGet url default_params]\<rparr>
      in case remote L (effects w) url default_params of
           Returns j \<Rightarrow> (w', j)
         | Raises e \<Rightarrow> (w'\<lparr>effects := effects w' @ [LogError]\<rparr>, JNull))"

text \<open>The pattern every fetch starts with (lines 38 to 43, 57 to 63, 78 to 83, 98 to 103,
  116 to 122): read the cache; on a falsy value call the provider and cache a truthy
  answer.\<close>

definition cached_fetch ::
  "env \<Rightarrow> world \<Rightarrow> string \<Rightarrow> string \<Rightarrow> (string \<times> json) list \<Rightarrow> int \<Rightarrow> world \<times> json" where
  "cached_fetch L w key endpoint params ttl =
     (case cache_get w key of (w1, d) \<Rightarrow>
        if \<not> truthy d then
          (case make_request L w1 endpoint params of (w2, d2) \<Rightarrow>
             (if truthy d2 then cache_set w2 key d2 ttl else w2, d2))
        else (w1, d))"

section \<open>The genre catalog\<close>

definition next_pk :: "nat list \<Rightarrow> nat" where
  "next_pk pks = Suc (foldr max pks 0)"

text \<open>\<^verbatim>\<open>Genre.objects.get_or_create(tmdb_id=..., defaults={'name': ...})\<close>: the lookup value
  goes through the integer field; one matching row is returned as it is, no row means
  an insert, several rows raise.\<close>

definition genre_get_or_create :: "env \<Rightarrow> genre list \<Rightarrow> json \<Rightarrow> json \<Rightarrow> exn + genre list" where
  "genre_get_or_create L gs jid jname =
     (case int_field L jid of
        None \<Rightarrow> Inl ValueError
      | Some i \<Rightarrow>
          (case filter (\<lambda>g. genre_tmdb_id g = i) gs of
             [] \<Rightarrow>
               (case char_field L (Some 100) jname of
                  None \<Rightarrow> Inl IntegrityError
                | Some n \<Rightarrow>
                    Inr (gs @ [\<lparr>genre_pk = next_pk (map genre_pk gs), genre_tmdb_id = i, name = n\<rparr>]))
           | [g] \<Rightarrow> Inr gs
           | g # g' # others \<Rightarrow> Inl MultipleObjectsReturned))"

text \<open>The loop of lines 46 to 50. Each \<^verbatim>\<open>get_or_create\<close> commits on its own, so the rows
  written before an exception stay.\<close>

fun create_genres :: "env \<Rightarrow> genre list \<Rightarrow> json list \<Rightarrow> genre list \<times> (exn + unit)" where
  "create_genres L gs [] = (gs, Inr ())"
| "create_genres L gs (genre_data # rest) =
     (case py_getitem genre_data ''id'' of
        Inl e \<Rightarrow> (gs, Inl e)
      | Inr jid \<Rightarrow>
          (case py_getitem genre_data ''name'' of
             Inl e \<Rightarrow> (gs, Inl e)
           | Inr jname \<Rightarrow>
               (case genre_get_or_create L gs jid jname of
                  Inl e \<Rightarrow> (gs, Inl e)
                | Inr gs' \<Rightarrow> create_genres L gs' rest)))"

text \<open>\<^verbatim>\<open>fetch_genres\<close> (lines 35 to 52). The value returned is the table after the loop
  (\<^verbatim>\<open>Genre.objects.all()\<close>, whose ordering by name the callers apply).\<close>

definition fetch_genres :: "env \<Rightarrow> world \<Rightarrow> world \<times> (exn + genre list)" where
  "fetch_genres L w =
     (case cached_fetch L w ''tmdb_genres'' ''genre/movie/list'' [] (cache_timeout L ''GENRES'') of
        (w1, genres_data) \<Rightarrow>
          if truthy genres_data then
            (case py_in ''genres'' genres_data of
               Inl e \<Rightarrow> (w1, Inl e)
             | Inr False \<Rightarrow> (w1, Inr (genres w1))
             | Inr True \<Rightarrow>
                 (case py_getitem genres_data ''genres'' of
                    Inl e \<Rightarrow> (w1, Inl e)
                  | Inr gl \<Rightarrow>
                      (case py_iter gl of
                         Inl e \<Rightarrow> (w1, Inl e)
                       | Inr items \<Rightarrow>
                           (case create_genres L (genres w1) items of
                              (gs, Inl e) \<Rightarrow> (w1\<lparr>genres := gs\<rparr>, Inl e)
                            | (gs, Inr u) \<Rightarrow> (w1\<lparr>genres := gs\<rparr>, Inr gs)))))
          else (w1, Inr (genres w1)))"

section \<open>The entity merge engine\<close>

text \<open>Lines 138 to 145: a falsy or missing \<^verbatim>\<open>release_date\<close> gives no date; a string goes
  through \<^verbatim>\<open>strptime\<close>, whose ValueError is swallowed; any other truthy value makes
  \<^verbatim>\<open>strptime\<close> raise TypeError, which line 144 does not catch.\<close>

definition parse_release_date :: "env \<Rightarrow> (string \<times> json) list \<Rightarrow> exn + date option" where
  "parse_release_date L movie_data =
     (let v = dict_get movie_data ''release_date'' JNull in
      if truthy v then (case v of JStr s \<Rightarrow> Inr (strptime L s) | _ \<Rightarrow> Inl TypeError)
      else Inr None)"

text \<open>The \<^verbatim>\<open>defaults\<close> of lines 150 to 158, taken through the model's fields into a row
  with the given keys; \<open>None\<close> when a field rejects its value.\<close>

definition movie_row :: "env \<Rightarrow> nat \<Rightarrow> int \<Rightarrow> (string \<times> json) list \<Rightarrow> date option \<Rightarrow> movie option" where
  "movie_row L p i movie_data rd =
     (case char_field L (Some 200) (dict_get movie_data ''title'' (JStr [])) of None \<Rightarrow> None | Some t \<Rightarrow>
     (case char_field L None (dict_get movie_data ''overview'' (JStr [])) of None \<Rightarrow> None | Some ov \<Rightarrow>
     (case float_field L (dict_get movie_data ''vote_average'' (JFloat 0)) of None \<Rightarrow> None | Some va \<Rightarrow>
     (case float_field L (dict_get movie_data ''popularity'' (JFloat 0)) of None \<Rightarrow> None | Some po \<Rightarrow>
     (case char_field L (Some 200) (dict_get movie_data ''poster_path'' (JStr [])) of None \<Rightarrow> None | Some pp \<Rightarrow>
     (case char_field L (Some 200) (dict_get movie_data ''backdrop_path'' (JStr [])) of None \<Rightarrow> None | Some bp \<Rightarrow>
        Some \<lparr>movie_pk = p, tmdb_id = i, title = t, overview = ov, release_date = rd,
              vote_average = va, popularity = po, poster_path = pp, backdrop_path = bp\<rparr>))))))"

text \<open>\<^verbatim>\<open>Movie.objects.update_or_create(tmdb_id=..., defaults=...)\<close> (lines 148 to 159): no
  row with the key means an insert under a fresh surrogate key, one row is overwritten
  where it stands, several rows raise. A rejected write leaves the table as it was. The
  row returned is the row as stored.\<close>

definition update_or_create ::
  "env \<Rightarrow> movie list \<Rightarrow> json \<Rightarrow> (string \<times> json) list \<Rightarrow> date option \<Rightarrow> exn + (movie list \<times> movie)" where
  "update_or_create L rows jid movie_data rd =
     (case int_field L jid of
        None \<Rightarrow> Inl ValueError
      | Some i \<Rightarrow>
          (case filter (\<lambda>m. tmdb_id m = i) rows of
             [] \<Rightarrow>
               (case movie_row L (next_pk (map movie_pk rows)) i movie_data rd of
                  None \<Rightarrow> Inl IntegrityError
                | Some m \<Rightarrow> Inr (rows @ [m], m))
           | [old] \<Rightarrow>
               (case movie_row L (movie_pk old) i movie_data rd of
                  None \<Rightarrow> Inl IntegrityError
                | Some m \<Rightarrow> Inr (map (\<lambda>r. if movie_pk r = movie_pk old then m else r) rows, m))
           | old # old' # others \<Rightarrow> Inl MultipleObjectsReturned))"

text \<open>The comprehension of line 163.\<close>

fun genre_ids_of_objects :: "json list \<Rightarrow> exn + json list" where
  "genre_ids_of_objects [] = Inr []"
| "genre_ids_of_objects (g # rest) =
     (case py_getitem g ''id'' of
        Inl e \<Rightarrow> Inl e
      | Inr i \<Rightarrow> (case genre_ids_of_objects rest of Inl e \<Rightarrow> Inl e | Inr is \<Rightarrow> Inr (i # is)))"

text \<open>Lines 162 to 167: the genre-ID list of a record. With \<^verbatim>\<open>genre_ids\<close> it is whatever
  value the record carries there.\<close>

definition genre_ids_of :: "(string \<times> json) list \<Rightarrow> exn + json" where
  "genre_ids_of movie_data =
     (if ''genres'' \<in> set (map fst movie_data) then
        (case py_iter (dict_get movie_data ''genres'' JNull) of
           Inl e \<Rightarrow> Inl e
         | Inr gs \<Rightarrow> (case genre_ids_of_objects gs of Inl e \<Rightarrow> Inl e | Inr is \<Rightarrow> Inr (JList is)))
      else if ''genre_ids'' \<in> set (map fst movie_data) then Inr (dict_get movie_data ''genre_ids'' JNull)
      else Inr (JList []))"

text \<open>\<^verbatim>\<open>MovieGenre.objects.get_or_create(movie=movie, genre=genre)\<close>.\<close>

definition link_get_or_create :: "movie_genre list \<Rightarrow> nat \<Rightarrow> nat \<Rightarrow> exn + movie_genre list" where
  "link_get_or_create ls m g =
     (case filter (\<lambda>l. link_movie l = m \<and> link_genre l = g) ls of
        [] \<Rightarrow> Inr (ls @ [\<lparr>link_movie = m, link_genre = g\<rparr>])
      | [l] \<Rightarrow> Inr ls
      | l # l' # others \<Rightarrow> Inl MultipleObjectsReturned)"

text \<open>The loop of lines 177 to 182 for the movie with surrogate key \<open>m\<close>: an ID without a
  local genre is skipped (\<^verbatim>\<open>Genre.DoesNotExist\<close>); any other exception leaves the loop
  with the links written so far.\<close>

fun add_genre_links ::
  "env \<Rightarrow> genre list \<Rightarrow> nat \<Rightarrow> movie_genre list \<Rightarrow> json list \<Rightarrow> movie_genre list \<times> (exn + unit)" where
  "add_genre_links L gs m ls [] = (ls, Inr ())"
| "add_genre_links L gs m ls (genre_id # rest) =
     (case int_field L genre_id of
        None \<Rightarrow> (ls, Inl ValueError)
      | Some i \<Rightarrow>
          (case filter (\<lambda>g. genre_tmdb_id g = i) gs of
             [] \<Rightarrow> add_genre_links L gs m ls rest
           | [g] \<Rightarrow>
               (case link_get_or_create ls m (genre_pk g) of
                  Inl e \<Rightarrow> (ls, Inl e)
                | Inr ls' \<Rightarrow> add_genre_links L gs m ls' rest)
           | g # g' # others \<Rightarrow> (ls, Inl MultipleObjectsReturned)))"

text \<open>The body of the \<^verbatim>\<open>try\<close> of \<^verbatim>\<open>_create_or_update_movie\<close> (lines 137 to 184) on a
  record that is a dictionary: the world it leaves, and the exception it raises or the
  movie it returns.\<close>

definition merge_try :: "env \<Rightarrow> world \<Rightarrow> (string \<times> json) list \<Rightarrow> world \<times> (exn + movie)" where
  "merge_try L w movie_data =
     (case parse_release_date L movie_data of
        Inl e \<Rightarrow> (w, Inl e)
      | Inr rd \<Rightarrow>
     (case map_of movie_data ''id'' of
        None \<Rightarrow> (w, Inl KeyError)
      | Some jid \<Rightarrow>
     (case update_or_create L (movies w) jid movie_data rd of
        Inl e \<Rightarrow> (w, Inl e)
      | Inr (rows, m) \<Rightarrow>
     (let w1 = w\<lparr>movies := rows\<rparr> in
      case genre_ids_of movie_data of
        Inl e \<Rightarrow> (w1, Inl e)
      | Inr genre_ids \<Rightarrow>
          if truthy genre_ids then
            (case fetch_genres L w1 of
               (w2, Inl e) \<Rightarrow> (w2, Inl e)
             | (w2, Inr gs) \<Rightarrow>
                 (let w3 = w2\<lparr>movie_genres := filter (\<lambda>l. link_movie l \<noteq> movie_pk m) (movie_genres w2)\<rparr> in
                  case py_iter genre_ids of
                    Inl e \<Rightarrow> (w3, Inl e)
                  | Inr ids \<Rightarrow>
                      (case add_genre_links L (genres w3) (movie_pk m) (movie_genres w3) ids of
                         (ls, Inl e) \<Rightarrow> (w3\<lparr>movie_genres := ls\<rparr>, Inl e)
                       | (ls, Inr u) \<Rightarrow> (w3\<lparr>movie_genres := ls\<rparr>, Inr m))))
          else (w1, Inr m)))))"

text \<open>\<^verbatim>\<open>_create_or_update_movie\<close> (lines 134 to 188). The result \<open>Inr (Some m)\<close> is the movie
  returned, \<open>Inr None\<close> the \<^verbatim>\<open>None\<close> of line 188, \<open>Inl e\<close> an exception that leaves the
  function. On a record that is not a dictionary the first statement of the \<^verbatim>\<open>try\<close>
  raises AttributeError (\<^verbatim>\<open>movie_data.get\<close>), and so does the handler's own
  \<^verbatim>\<open>movie_data.get('id')\<close> on line 187, outside any \<^verbatim>\<open>try\<close>. The flag \<open>detailed\<close> is
  never read by the source.\<close>

definition create_or_update_movie :: "env \<Rightarrow> world \<Rightarrow> json \<Rightarrow> bool \<Rightarrow> world \<times> (exn + movie option)" where
  "create_or_update_movie L w movie_data detailed =
     (case movie_data of
        JDict kvs \<Rightarrow>
          (case merge_try L w kvs of
             (w', Inr m) \<Rightarrow> (w', Inr (Some m))
           | (w', Inl e) \<Rightarrow> (w'\<lparr>effects := effects w' @ [LogError]\<rparr>, Inr None))
      | _ \<Rightarrow> (w, Inl AttributeError))"

section \<open>The query facade\<close>

text \<open>The loop of lines 67 to 70 (the same at 87 to 90 and 126 to 129): a record whose
  merge returns \<^verbatim>\<open>None\<close> is left out; an exception leaving the merge leaves the loop.\<close>

fun merge_each :: "env \<Rightarrow> world \<Rightarrow> json list \<Rightarrow> world \<times> (exn + movie list)" where
  "merge_each L w [] = (w, Inr [])"
| "merge_each L w (movie_data # rest) =
     (case create_or_update_movie L w movie_data False of
        (w1, Inl e) \<Rightarrow> (w1, Inl e)
      | (w1, Inr r) \<Rightarrow>
          (case merge_each L w1 rest of
             (w2, Inl e) \<Rightarrow> (w2, Inl e)
           | (w2, Inr ms) \<Rightarrow> (w2, Inr ((case r of None \<Rightarrow> [] | Some m \<Rightarrow> [m]) @ ms))))"

text \<open>Lines 65 to 73, which \<^verbatim>\<open>fetch_popular_movies\<close> (85 to 93) and \<^verbatim>\<open>search_movies\<close>
  (124 to 132) repeat word for word: the movies merged from a payload and the total
  page count reported with them.\<close>

definition merge_results :: "env \<Rightarrow> world \<Rightarrow> json \<Rightarrow> world \<times> (exn + movie list \<times> json)" where
  "merge_results L w movies_data =
     (if truthy movies_data then
        (case py_in ''results'' movies_data of
           Inl e \<Rightarrow> (w, Inl e)
         | Inr False \<Rightarrow> (w, Inr ([], JInt 0))
         | Inr True \<Rightarrow>
             (case py_getitem movies_data ''results'' of
                Inl e \<Rightarrow> (w, Inl e)
              | Inr rs \<Rightarrow>
                  (case py_iter rs of
                     Inl e \<Rightarrow> (w, Inl e)
                   | Inr items \<Rightarrow>
                       (case merge_each L w items of
                          (w', Inl e) \<Rightarrow> (w', Inl e)
                        | (w', Inr ms) \<Rightarrow>
                            (case movies_data of
                               JDict kvs \<Rightarrow> (w', Inr (ms, dict_get kvs ''total_pages'' (JInt 1)))
                             | _ \<Rightarrow> (w', Inl AttributeError))))))
      else (w, Inr ([], JInt 0)))"

text \<open>\<^verbatim>\<open>fetch_trending_movies\<close> (lines 54 to 73).\<close>

definition fetch_trending_movies ::
  "env \<Rightarrow> world \<Rightarrow> string \<Rightarrow> int \<Rightarrow> world \<times> (exn + movie list \<times> json)" where
  "fetch_trending_movies L w time_window page =
     (case cached_fetch L w (''trending_movies_'' @ time_window @ ''_'' @ str_int page)
             (''trending/movie/'' @ time_window) [(''page'', JInt page)]
             (cache_timeout L ''TRENDING_MOVIES'') of
        (w1, movies_data) \<Rightarrow> merge_results L w1 movies_data)"

text \<open>\<^verbatim>\<open>fetch_popular_movies\<close> (lines 75 to 93).\<close>

definition fetch_popular_movies :: "env \<Rightarrow> world \<Rightarrow> int \<Rightarrow> world \<times> (exn + movie list \<times> json)" where
  "fetch_popular_movies L w page =
     (case cached_fetch L w (''popular_movies_'' @ str_int page) ''movie/popular''
             [(''page'', JInt page)] (cache_timeout L ''POPULAR_MOVIES'') of
        (w1, movies_data) \<Rightarrow> merge_results L w1 movies_data)"

text \<open>\<^verbatim>\<open>fetch_movie_details\<close> (lines 95 to 108).\<close>

definition fetch_movie_details :: "env \<Rightarrow> world \<Rightarrow> int \<Rightarrow> world \<times> (exn + movie option)" where
  "fetch_movie_details L w tid =
     (case cached_fetch L w (''movie_details_'' @ str_int tid) (''movie/'' @ str_int tid) []
             (cache_timeout L ''MOVIE_DETAILS'') of
        (w1, movie_data) \<Rightarrow>
          if truthy movie_data then create_or_update_movie L w1 movie_data True
          else (w1, Inr None))"

text \<open>\<^verbatim>\<open>search_movies\<close> (lines 110 to 132).\<close>

definition search_movies :: "env \<Rightarrow> world \<Rightarrow> string \<Rightarrow> int \<Rightarrow> world \<times> (exn + movie list \<times> json)" where
  "search_movies L w query page =
     (if strip query = [] then (w, Inr ([], JInt 0))
      else
        (case cached_fetch L w (''search_movies_'' @ query @ ''_'' @ str_int page) ''search/movie''
                [(''query'', JStr query), (''page'', JInt page)] 1800 of
           (w1, movies_data) \<Rightarrow> merge_results L w1 movies_data))"

text \<open>\<^verbatim>\<open>Movie.objects.filter(genres=genre)\<close>: the join of the movie table with the link
  table, one row per link to the genre.\<close>

definition movies_of_genre :: "world \<Rightarrow> genre \<Rightarrow> movie list" where
  "movies_of_genre w g =
     concat (map (\<lambda>m. map (\<lambda>l. m)
                   (filter (\<lambda>l. link_movie l = movie_pk m \<and> link_genre l = genre_pk g) (movie_genres w)))
                 (movies w))"

text \<open>\<^verbatim>\<open>order_by('-popularity')\<close>. The database leaves the order of rows with equal
  popularity open; the model keeps them in table order.\<close>

definition order_by_popularity_desc :: "movie list \<Rightarrow> movie list" where
  "order_by_popularity_desc ms = sort_key (\<lambda>m. - popularity m) ms"

text \<open>The largest integer the database takes as an offset: a signed 64-bit integer, as in
  SQLite and PostgreSQL.\<close>

definition db_max_int :: int where
  "db_max_int = 9223372036854775807"

text \<open>Slicing a queryset and reading the slice, \<^verbatim>\<open>list(qs[start:stop])\<close>: Django refuses a
  negative bound when the slice is taken, and the database refuses the query
  \<^verbatim>\<open>LIMIT stop - start OFFSET start\<close> when the offset is beyond its integer range.\<close>

definition queryset_slice :: "'a list \<Rightarrow> int \<Rightarrow> int \<Rightarrow> exn + 'a list" where
  "queryset_slice xs start stop =
     (if start < 0 \<or> stop < 0 then Inl ValueError
      else if db_max_int < start then Inl DatabaseError
      else Inr (take (nat (stop - start)) (drop (nat start) xs)))"

text \<open>\<^verbatim>\<open>get_movies_by_genre\<close> (lines 190 to 205). \<^verbatim>\<open>Genre.objects.get\<close> raises
  \<^verbatim>\<open>DoesNotExist\<close>, which line 204 catches, for no match, and
  \<^verbatim>\<open>MultipleObjectsReturned\<close>, which nothing catches, for several. The function only
  reads the store.\<close>

definition get_movies_by_genre :: "env \<Rightarrow> world \<Rightarrow> string \<Rightarrow> int \<Rightarrow> exn + movie list \<times> int" where
  "get_movies_by_genre L w genre_name page =
     (case filter (\<lambda>g. iexact L (name g) genre_name) (genres w) of
        [] \<Rightarrow> Inr ([], 0)
      | [g] \<Rightarrow>
          (let ms = order_by_popularity_desc (movies_of_genre w g);
               start = (page - 1) * 20;
               stop = start + 20
           in case queryset_slice ms start stop of
                Inl e \<Rightarrow> Inl e
              | Inr paginated_movies \<Rightarrow> Inr (paginated_movies, (int (length ms) + 19) div 20))
      | g # g' # others \<Rightarrow> Inl MultipleObjectsReturned)"

text \<open>The view \<^verbatim>\<open>movies_by_genre\<close> of \<^verbatim>\<open>views.py\<close> (lines 135 to 163), after the request layer
  has read the two query parameters: the responses it can give.\<close>

datatype response =
    BadRequest
  | NotFound
  | Success "movie list" int int nat string

definition movies_by_genre :: "env \<Rightarrow> world \<Rightarrow> string \<Rightarrow> int \<Rightarrow> exn + response" where
  "movies_by_genre L w genre_param page =
     (let genre_name = strip genre_param in
      if genre_name = [] then Inr BadRequest
      else
        (case get_movies_by_genre L w genre_name page of
           Inl e \<Rightarrow> Inl e
         | Inr (ms, total_pages) \<Rightarrow>
             if ms = [] \<and> total_pages = 0 then Inr NotFound
             else Inr (Success ms page total_pages (length ms) genre_name)))"

text \<open>The remote call that \<^verbatim>\<open>_make_request\<close> issues from world \<open>w\<close> for an endpoint and
  its parameters ends in a RequestException.\<close>

definition request_fails :: "env \<Rightarrow> world \<Rightarrow> string \<Rightarrow> (string \<times> json) list \<Rightarrow> bool" where
  "request_fails L w endpoint params =
     (case remote L (effects w) (base_url L @ ''/'' @ endpoint)
             (dict_update [(''api_key'', JStr (api_key L))] params) of
        Raises e \<Rightarrow> True
      | Returns j \<Rightarrow> False)"

section \<open>Predicates on stores and payloads\<close>

text \<open>The uniqueness constraints of \<^verbatim>\<open>models.py\<close> that the merge relies on: surrogate keys
  are unique, and \<^verbatim>\<open>tmdb_id\<close> is declared \<^verbatim>\<open>unique=True\<close> on Movie and on Genre.\<close>

definition store_ok :: "world \<Rightarrow> bool" where
  "store_ok w =
     (distinct (map movie_pk (movies w)) \<and> distinct (map tmdb_id (movies w)) \<and>
      distinct (map genre_pk (genres w)) \<and> distinct (map genre_tmdb_id (genres w)))"

text \<open>The genres a movie is associated with (\<^verbatim>\<open>movie.genres.all()\<close>): the genre rows that a
  link row joins to the movie's surrogate key.\<close>

definition genres_of_movie :: "world \<Rightarrow> nat \<Rightarrow> genre list" where
  "genres_of_movie w p =
     filter (\<lambda>g. \<exists>l \<in> set (movie_genres w). link_movie l = p \<and> link_genre l = genre_pk g) (genres w)"

text \<open>A record of a payload that is a JSON object.\<close>

fun is_object :: "json \<Rightarrow> bool" where
  "is_object (JDict kvs) = True"
| "is_object v = False"

section \<open>A concrete environment and store\<close>

text \<open>
  An environment for running the model on examples: each field takes the JSON type the
  provider documents for it (an integer for an ID, a number for a rating, a string for
  a text) and rejects the rest; the provider answers the genre catalog with Action (28)
  and Drama (18) and fails on every other call; names are matched character by
  character.
\<close>

definition typed_int :: "json \<Rightarrow> int option" where
  "typed_int v = (case v of JInt n \<Rightarrow> Some n | _ \<Rightarrow> None)"

definition typed_float :: "json \<Rightarrow> real option" where
  "typed_float v = (case v of JFloat r \<Rightarrow> Some r | JInt n \<Rightarrow> Some (of_int n) | _ \<Rightarrow> None)"

definition typed_char :: "nat option \<Rightarrow> json \<Rightarrow> string option" where
  "typed_char max_length v = (case v of JStr s \<Rightarrow> Some s | _ \<Rightarrow> None)"

definition catalog :: json where
  "catalog = JDict [(''genres'', JList [JDict [(''id'', JInt 28), (''name'', JStr ''Action'')],
                                       JDict [(''id'', JInt 18), (''name'', JStr ''Drama'')]])]"

definition demo_remote :: "effect list \<Rightarrow> string \<Rightarrow> (string \<times> json) list \<Rightarrow> reply" where
  "demo_remote es url params = (if url = ''api/genre/movie/list'' then Returns catalog else Raises Timeout)"

definition demo_env :: env where
  "demo_env =
     \<lparr>api_key = ''k'', base_url = ''api'', cache_timeout = (\<lambda>k. 3600), remote = demo_remote,
      int_field = typed_int, float_field = typed_float, char_field = typed_char,
      strptime = (\<lambda>s. None), iexact = (\<lambda>a b. a = b)\<rparr>"

definition empty_world :: world where
  "empty_world = \<lparr>movies = [], genres = [], movie_genres = [], cache = Map.empty, effects = []\<rparr>"

text \<open>A provider that answers every call with three records, the second of which is
  \<^verbatim>\<open>null\<close>.\<close>

definition batch_with_null :: json where
  "batch_with_null = JDict [(''results'', JList [JDict [(''id'', JInt 10)], JNull, JDict [(''id'', JInt 20)]])]"

definition null_record_env :: env where
  "null_record_env = demo_env\<lparr>remote := (\<lambda>es url params. Returns batch_with_null)\<rparr>"

text \<open>Providers that answer every call with no results and \<^verbatim>\<open>total_pages\<close> 0, and with one
  record and no \<^verbatim>\<open>total_pages\<close>.\<close>

definition zero_pages_env :: env where
  "zero_pages_env = demo_env\<lparr>remote := (\<lambda>es url params. Returns (JDict [(''results'', JList []), (''total_pages'', JInt 0)]))\<rparr>"

definition one_page_env :: env where
  "one_page_env = demo_env\<lparr>remote := (\<lambda>es url params. Returns (JDict [(''results'', JList [JDict [(''id'', JInt 10)]])]))\<rparr>"

text \<open>A store whose genre 28 carries a name that differs from the catalog's.\<close>

definition stale_world :: world where
  "stale_world = empty_world\<lparr>genres := [\<lparr>genre_pk = 1, genre_tmdb_id = 28, name = ''Akshun''\<rparr>]\<rparr>"

text \<open>A store with four movies, three of them of the genre Action and none of the genre
  Drama; a store with two genres of the same name; a store whose only genre has no
  movie.\<close>

definition shelf_world :: world where
  "shelf_world = empty_world
     \<lparr>movies := [\<lparr>movie_pk = 1, tmdb_id = 10, title = ''A'', overview = [], release_date = None,
                   vote_average = 7, popularity = 5, poster_path = [], backdrop_path = []\<rparr>,
                  \<lparr>movie_pk = 2, tmdb_id = 20, title = ''B'', overview = [], release_date = None,
                   vote_average = 6, popularity = 9, poster_path = [], backdrop_path = []\<rparr>,
                  \<lparr>movie_pk = 3, tmdb_id = 30, title = ''C'', overview = [], release_date = None,
                   vote_average = 8, popularity = 7, poster_path = [], backdrop_path = []\<rparr>,
                  \<lparr>movie_pk = 4, tmdb_id = 40, title = ''D'', overview = [], release_date = None,
                   vote_average = 9, popularity = 8, poster_path = [], backdrop_path = []\<rparr>],
      genres := [\<lparr>genre_pk = 1, genre_tmdb_id = 28, name = ''Action''\<rparr>,
                 \<lparr>genre_pk = 2, genre_tmdb_id = 18, name = ''Drama''\<rparr>],
      movie_genres := [\<lparr>link_movie = 1, link_genre = 1\<rparr>, \<lparr>link_movie = 2, link_genre = 1\<rparr>,
                       \<lparr>link_movie = 3, link_genre = 1\<rparr>]\<rparr>"

definition twin_genre_world :: world where
  "twin_genre_world = empty_world
     \<lparr>genres := [\<lparr>genre_pk = 1, genre_tmdb_id = 28, name = ''Action''\<rparr>,
                 \<lparr>genre_pk = 2, genre_tmdb_id = 99, name = ''Action''\<rparr>]\<rparr>"

definition empty_genre_world :: world where
  "empty_genre_world = empty_world\<lparr>genres := [\<lparr>genre_pk = 1, genre_tmdb_id = 28, name = ''Action''\<rparr>]\<rparr>"

text \<open>Records for provider ID 1: one naming the genres 28 and 77 (the second unknown to
  the catalog), one with an empty genre-ID list, one whose \<^verbatim>\<open>poster_path\<close> is \<^verbatim>\<open>null\<close> (a
  movie without a poster); and the row the first two are stored as.\<close>

definition heat_action :: "(string \<times> json) list" where
  "heat_action = [(''id'', JInt 1), (''title'', JStr ''Heat''), (''vote_average'', JFloat 8.3),
                  (''genre_ids'', JList [JInt 28, JInt 77])]"

definition heat_no_genres :: "(string \<times> json) list" where
  "heat_no_genres = [(''id'', JInt 1), (''title'', JStr ''Heat''), (''vote_average'', JFloat 8.3),
                     (''genre_ids'', JList [])]"

definition heat_no_poster :: "(string \<times> json) list" where
  "heat_no_poster = [(''id'', JInt 1), (''title'', JStr ''Heat''), (''vote_average'', JFloat 8.3),
                     (''poster_path'', JNull)]"

definition heat_row :: movie where
  "heat_row = \<lparr>movie_pk = 1, tmdb_id = 1, title = ''Heat'', overview = [], release_date = None,
               vote_average = 8.3, popularity = 0, poster_path = [], backdrop_path = []\<rparr>"

section \<open>Properties of the remote client and the search short cut\<close>

lemma strip_blank:
  assumes "\<forall>c \<in> set s. isspace c"
  shows "strip s = []"
proof -
  from assms have e: "dropWhile isspace s = []" by simp
  show ?thesis unfolding strip_def e by simp
qed

text \<open>
  Claim C6. A search whose query is empty or consists of whitespace only returns the
  empty result with zero total pages and leaves the world as it was: the cache is
  neither read nor written and the provider is not called, since the trace of effects
  and the cache are part of the world.
\<close>

theorem search_blank_query:
  assumes "\<forall>c \<in> set query. isspace c"
  shows "search_movies L w query page = (w, Inr ([], JInt 0))"
  using assms by (simp add: search_movies_def strip_blank)

theorem search_blank_query_witness:
  "search_movies demo_env empty_world ''  '' 1 = (empty_world, Inr ([], JInt 0))"
  using search_blank_query [of "''  ''" demo_env empty_world 1] by (simp add: isspace_def)

lemma make_request_fails:
  "request_fails L w endpoint params \<Longrightarrow> snd (make_request L w endpoint params) = JNull"
  by (simp add: request_fails_def make_request_def Let_def split: reply.splits)

lemma cached_fetch_fails:
  "cache w key = None \<Longrightarrow> request_fails L (fst (cache_get w key)) endpoint params \<Longrightarrow>
   snd (cached_fetch L w key endpoint params ttl) = JNull"
  using make_request_fails [of L "fst (cache_get w key)" endpoint params]
  by (cases "make_request L (fst (cache_get w key)) endpoint params")
     (simp add: cached_fetch_def cache_get_def)

lemma merge_results_absent: "merge_results L w JNull = (w, Inr ([], JInt 0))"
  by (simp add: merge_results_def)

text \<open>
  Claim C4. When the remote call ends in a RequestException (a timeout, a connection
  error, the HTTPError of an error status), \<^verbatim>\<open>_make_request\<close> returns \<^verbatim>\<open>None\<close> instead of
  raising; and with nothing cached under its key, each of the three list operations
  (trending, popular, search) then returns the empty sequence with total page count 0,
  not an exception.
\<close>

theorem transport_failure_gives_empty:
  "(request_fails L w endpoint params \<longrightarrow> snd (make_request L w endpoint params) = JNull) \<and>
   (cache w (''trending_movies_'' @ time_window @ ''_'' @ str_int page) = None \<and>
    request_fails L (fst (cache_get w (''trending_movies_'' @ time_window @ ''_'' @ str_int page)))
      (''trending/movie/'' @ time_window) [(''page'', JInt page)] \<longrightarrow>
    snd (fetch_trending_movies L w time_window page) = Inr ([], JInt 0)) \<and>
   (cache w (''popular_movies_'' @ str_int page) = None \<and>
    request_fails L (fst (cache_get w (''popular_movies_'' @ str_int page)))
      ''movie/popular'' [(''page'', JInt page)] \<longrightarrow>
    snd (fetch_popular_movies L w page) = Inr ([], JInt 0)) \<and>
   (cache w (''search_movies_'' @ query @ ''_'' @ str_int page) = None \<and>
    request_fails L (fst (cache_get w (''search_movies_'' @ query @ ''_'' @ str_int page)))
      ''search/movie'' [(''query'', JStr query), (''page'', JInt page)] \<longrightarrow>
    snd (search_movies L w query page) = Inr ([], JInt 0))"
proof -
  have tail: "snd (case cached_fetch L w key ep ps ttl of (w1, d) \<Rightarrow> merge_results L w1 d) = Inr ([], JInt 0)"
    if "cache w key = None" "request_fails L (fst (cache_get w key)) ep ps" for key ep ps ttl
    using cached_fetch_fails [OF that, of ttl]
    by (cases "cached_fetch L w key ep ps ttl") (simp add: merge_results_absent)
  show ?thesis
    by (simp add: make_request_fails fetch_trending_movies_def fetch_popular_movies_def
          search_movies_def tail)
qed

theorem transport_failure_gives_empty_witness:
  "request_fails demo_env empty_world ''movie/popular'' [(''page'', JInt 1)] \<and>
   snd (make_request demo_env empty_world ''movie/popular'' [(''page'', JInt 1)]) = JNull \<and>
   snd (fetch_trending_movies demo_env empty_world ''day'' 1) = Inr ([], JInt 0) \<and>
   snd (fetch_popular_movies demo_env empty_world 1) = Inr ([], JInt 0) \<and>
   snd (search_movies demo_env empty_world ''matrix'' 1) = Inr ([], JInt 0)"
  using transport_failure_gives_empty
          [of demo_env empty_world "''movie/popular''" "[(''page'', JInt 1)]" "''day''" 1 "''matrix''"]
  by (simp add: request_fails_def demo_env_def demo_remote_def empty_world_def cache_get_def)

section \<open>Failure isolation, stored values and total pages\<close>

lemmas run_defs =
  create_or_update_movie_def merge_try_def parse_release_date_def dict_get_def
  update_or_create_def demo_env_def empty_world_def typed_int_def movie_row_def typed_char_def
  typed_float_def next_pk_def genre_ids_of_def fetch_genres_def cached_fetch_def cache_get_def
  make_request_def demo_remote_def catalog_def cache_set_def genre_get_or_create_def
  link_get_or_create_def merge_results_def fetch_popular_movies_def fetch_trending_movies_def
  search_movies_def Let_def

lemma create_or_update_movie_object:
  "\<exists>w' r. create_or_update_movie L w (JDict kvs) d = (w', Inr r)"
  by (cases "merge_try L w kvs") (auto simp: create_or_update_movie_def split: sum.splits)

lemma merge_each_objects:
  "list_all is_object rs \<Longrightarrow> \<exists>w' ms. merge_each L w rs = (w', Inr ms)"
proof (induction rs arbitrary: w)
  case Nil
  then show ?case by simp
next
  case (Cons r rs)
  then obtain kvs where r: "r = JDict kvs" by (cases r) auto
  obtain w1 x where s1: "create_or_update_movie L w (JDict kvs) False = (w1, Inr x)"
    using create_or_update_movie_object by blast
  from Cons obtain w2 ms where s2: "merge_each L w1 rs = (w2, Inr ms)" by fastforce
  show ?case by (simp add: r s1 s2)
qed

text \<open>
  Claim C3, at a failing input. The provider answers with three records, the second of
  which is \<^verbatim>\<open>null\<close>. Merging it raises inside the \<^verbatim>\<open>try\<close>; the handler's own
  \<^verbatim>\<open>movie_data.get('id')\<close> raises again, and the AttributeError leaves each of the three
  list operations: the two good records are not returned.
\<close>

theorem null_record_escapes:
  "snd (fetch_popular_movies null_record_env empty_world 1) = Inl AttributeError \<and>
   snd (fetch_trending_movies null_record_env empty_world ''day'' 1) = Inl AttributeError \<and>
   snd (search_movies null_record_env empty_world ''matrix'' 1) = Inl AttributeError"
  by (simp add: null_record_env_def batch_with_null_def run_defs strip_def isspace_def)

text \<open>
  Claim C8, at a failing input. A record whose \<^verbatim>\<open>vote_average\<close> is 11.5 is merged into
  the empty store; the row stored carries 11.5, above the bound of 10 that the field's
  validators and help text declare.
\<close>

theorem rating_out_of_range_stored:
  "map vote_average (movies (fst (create_or_update_movie demo_env empty_world
      (JDict [(''id'', JInt 1), (''vote_average'', JFloat 11.5)]) False))) = [11.5] \<and>
   \<not> (11.5 \<le> (10 :: real))"
  by (simp add: run_defs)

lemma merge_results_default:
  assumes "d = JDict kvs" "map_of kvs ''results'' = Some (JList rs)" "list_all is_object rs"
  shows "\<exists>w' ms. merge_results L w d = (w', Inr (ms, dict_get kvs ''total_pages'' (JInt 1)))"
proof -
  obtain w' ms where m: "merge_each L w rs = (w', Inr ms)"
    using merge_each_objects [OF assms(3)] by blast
  from assms(2) have k: "''results'' \<in> fst ` set kvs" using map_of_SomeD by force
  then have ne: "kvs \<noteq> []" by auto
  show ?thesis using assms(1,2) k ne m by (simp add: merge_results_def)
qed

lemma merge_results_zero:
  assumes "merge_results L w d = (w', Inr (ms, JInt 0))"
  shows "\<not> truthy d \<or> py_in ''results'' d = Inr False \<or>
         (\<exists>kvs. d = JDict kvs \<and> map_of kvs ''total_pages'' = Some (JInt 0))"
  using assms
  by (cases d)
     (auto simp: merge_results_def dict_get_def
           split: if_splits sum.splits prod.splits option.splits bool.splits)

text \<open>
  Claim C10 fails as stated. A payload that carries a results list together with
  \<^verbatim>\<open>total_pages\<close> 0 makes each list operation report total page count 0, although the
  remote call succeeded, the payload has \<^verbatim>\<open>results\<close> and the query is not empty.
\<close>

theorem zero_total_pages_with_results:
  "snd (fetch_popular_movies zero_pages_env empty_world 1) = Inr ([], JInt 0) \<and>
   snd (fetch_trending_movies zero_pages_env empty_world ''day'' 1) = Inr ([], JInt 0) \<and>
   snd (search_movies zero_pages_env empty_world ''matrix'' 1) = Inr ([], JInt 0) \<and>
   snd (cached_fetch zero_pages_env empty_world ''popular_movies_1'' ''movie/popular''
          [(''page'', JInt 1)] 3600) = JDict [(''results'', JList []), (''total_pages'', JInt 0)]"
  by (simp add: zero_pages_env_def run_defs strip_def isspace_def)

lemma tail_pages:
  fixes cf :: "world \<times> json"
  shows "(\<forall>kvs rs. snd cf = JDict kvs \<and> map_of kvs ''results'' = Some (JList rs) \<and> list_all is_object rs \<longrightarrow>
          (\<exists>w' ms. (case cf of (w1, d) \<Rightarrow> merge_results L w1 d) =
                     (w', Inr (ms, dict_get kvs ''total_pages'' (JInt 1))))) \<and>
       (\<forall>w' ms. (case cf of (w1, d) \<Rightarrow> merge_results L w1 d) = (w', Inr (ms, JInt 0)) \<longrightarrow>
          \<not> truthy (snd cf) \<or> py_in ''results'' (snd cf) = Inr False \<or>
          (\<exists>kvs. snd cf = JDict kvs \<and> map_of kvs ''total_pages'' = Some (JInt 0)))"
proof (intro conjI allI impI)
  fix kvs rs
  assume "snd cf = JDict kvs \<and> map_of kvs ''results'' = Some (JList rs) \<and> list_all is_object rs"
  then show "\<exists>w' ms. (case cf of (w1, d) \<Rightarrow> merge_results L w1 d) =
                     (w', Inr (ms, dict_get kvs ''total_pages'' (JInt 1)))"
    using merge_results_default [of "snd cf" kvs rs L "fst cf"] by (simp add: case_prod_beta)
next
  fix w' ms
  assume "(case cf of (w1, d) \<Rightarrow> merge_results L w1 d) = (w', Inr (ms, JInt 0))"
  then show "\<not> truthy (snd cf) \<or> py_in ''results'' (snd cf) = Inr False \<or>
          (\<exists>kvs. snd cf = JDict kvs \<and> map_of kvs ''total_pages'' = Some (JInt 0))"
    using merge_results_zero [of L "fst cf" "snd cf" w' ms] by (simp add: case_prod_beta)
qed

text \<open>
  Claim C10, amended. For each list operation (trending, popular, search with a query
  that is not blank), let \<open>d\<close> be the payload it obtained from the cache or the
  provider. When \<open>d\<close> is an object whose \<^verbatim>\<open>results\<close> is a list of objects, the operation
  returns and reports the payload's own \<^verbatim>\<open>total_pages\<close>, or 1 when the payload has no
  such key. And an operation reports total page count 0 only when the payload is absent
  or falsy (as after a transport failure), has no \<^verbatim>\<open>results\<close>, carries \<^verbatim>\<open>total_pages\<close> 0
  itself, or (for search) the query is blank.
\<close>

theorem total_pages_reported:
  "(let d = snd (cached_fetch L w (''trending_movies_'' @ time_window @ ''_'' @ str_int page)
                   (''trending/movie/'' @ time_window) [(''page'', JInt page)]
                   (cache_timeout L ''TRENDING_MOVIES''))
    in (\<forall>kvs rs. d = JDict kvs \<and> map_of kvs ''results'' = Some (JList rs) \<and> list_all is_object rs \<longrightarrow>
          (\<exists>w' ms. fetch_trending_movies L w time_window page =
                     (w', Inr (ms, dict_get kvs ''total_pages'' (JInt 1))))) \<and>
       (\<forall>w' ms. fetch_trending_movies L w time_window page = (w', Inr (ms, JInt 0)) \<longrightarrow>
          \<not> truthy d \<or> py_in ''results'' d = Inr False \<or>
          (\<exists>kvs. d = JDict kvs \<and> map_of kvs ''total_pages'' = Some (JInt 0)))) \<and>
   (let d = snd (cached_fetch L w (''popular_movies_'' @ str_int page) ''movie/popular''
                   [(''page'', JInt page)] (cache_timeout L ''POPULAR_MOVIES''))
    in (\<forall>kvs rs. d = JDict kvs \<and> map_of kvs ''results'' = Some (JList rs) \<and> list_all is_object rs \<longrightarrow>
          (\<exists>w' ms. fetch_popular_movies L w page =
                     (w', Inr (ms, dict_get kvs ''total_pages'' (JInt 1))))) \<and>
       (\<forall>w' ms. fetch_popular_movies L w page = (w', Inr (ms, JInt 0)) \<longrightarrow>
          \<not> truthy d \<or> py_in ''results'' d = Inr False \<or>
          (\<exists>kvs. d = JDict kvs \<and> map_of kvs ''total_pages'' = Some (JInt 0)))) \<and>
   (let d = snd (cached_fetch L w (''search_movies_'' @ query @ ''_'' @ str_int page) ''search/movie''
                   [(''query'', JStr query), (''page'', JInt page)] 1800)
    in (\<forall>kvs rs. strip query \<noteq> [] \<and> d = JDict kvs \<and> map_of kvs ''results'' = Some (JList rs) \<and>
                 list_all is_object rs \<longrightarrow>
          (\<exists>w' ms. search_movies L w query page =
                     (w', Inr (ms, dict_get kvs ''total_pages'' (JInt 1))))) \<and>
       (\<forall>w' ms. search_movies L w query page = (w', Inr (ms, JInt 0)) \<longrightarrow>
          strip query = [] \<or> \<not> truthy d \<or> py_in ''results'' d = Inr False \<or>
          (\<exists>kvs. d = JDict kvs \<and> map_of kvs ''total_pages'' = Some (JInt 0))))"
proof -
  have t: "(\<forall>kvs rs. (snd (cached_fetch L w (''trending_movies_'' @ time_window @ ''_'' @ str_int page)
                   (''trending/movie/'' @ time_window) [(''page'', JInt page)]
                   (cache_timeout L ''TRENDING_MOVIES''))) = JDict kvs \<and> map_of kvs ''results'' = Some (JList rs) \<and> list_all is_object rs \<longrightarrow>
          (\<exists>w' ms. fetch_trending_movies L w time_window page =
                     (w', Inr (ms, dict_get kvs ''total_pages'' (JInt 1))))) \<and>
       (\<forall>w' ms. fetch_trending_movies L w time_window page = (w', Inr (ms, JInt 0)) \<longrightarrow>
          \<not> truthy (snd (cached_fetch L w (''trending_movies_'' @ time_window @ ''_'' @ str_int page)
                   (''trending/movie/'' @ time_window) [(''page'', JInt page)]
                   (cache_timeout L ''TRENDING_MOVIES''))) \<or> py_in ''results'' (snd (cached_fetch L w (''trending_movies_'' @ time_window @ ''_'' @ str_int page)
                   (''trending/movie/'' @ time_window) [(''page'', JInt page)]
                   (cache_timeout L ''TRENDING_MOVIES''))) = Inr False \<or>
          (\<exists>kvs. (snd (cached_fetch L w (''trending_movies_'' @ time_window @ ''_'' @ str_int page)
                   (''trending/movie/'' @ time_window) [(''page'', JInt page)]
                   (cache_timeout L ''TRENDING_MOVIES''))) = JDict kvs \<and> map_of kvs ''total_pages'' = Some (JInt 0)))"
    unfolding fetch_trending_movies_def by (rule tail_pages)
  have p: "(\<forall>kvs rs. (snd (cached_fetch L w (''popular_movies_'' @ str_int page) ''movie/popular''
                   [(''page'', JInt page)] (cache_timeout L ''POPULAR_MOVIES''))) = JDict kvs \<and> map_of kvs ''results'' = Some (JList rs) \<and> list_all is_object rs \<longrightarrow>
          (\<exists>w' ms. fetch_popular_movies L w page =
                     (w', Inr (ms, dict_get kvs ''total_pages'' (JInt 1))))) \<and>
       (\<forall>w' ms. fetch_popular_movies L w page = (w', Inr (ms, JInt 0)) \<longrightarrow>
          \<not> truthy (snd (cached_fetch L w (''popular_movies_'' @ str_int page) ''movie/popular''
                   [(''page'', JInt page)] (cache_timeout L ''POPULAR_MOVIES''))) \<or> py_in ''results'' (snd (cached_fetch L w (''popular_movies_'' @ str_int page) ''movie/popular''
                   [(''page'', JInt page)] (cache_timeout L ''POPULAR_MOVIES''))) = Inr False \<or>
          (\<exists>kvs. (snd (cached_fetch L w (''popular_movies_'' @ str_int page) ''movie/popular''
                   [(''page'', JInt page)] (cache_timeout L ''POPULAR_MOVIES''))) = JDict kvs \<and> map_of kvs ''total_pages'' = Some (JInt 0)))"
    unfolding fetch_popular_movies_def by (rule tail_pages)
  have s: "(\<forall>kvs rs. strip query \<noteq> [] \<and> (snd (cached_fetch L w (''search_movies_'' @ query @ ''_'' @ str_int page) ''search/movie''
                   [(''query'', JStr query), (''page'', JInt page)] 1800)) = JDict kvs \<and> map_of kvs ''results'' = Some (JList rs) \<and>
                 list_all is_object rs \<longrightarrow>
          (\<exists>w' ms. search_movies L w query page =
                     (w', Inr (ms, dict_get kvs ''total_pages'' (JInt 1))))) \<and>
       (\<forall>w' ms. search_movies L w query page = (w', Inr (ms, JInt 0)) \<longrightarrow>
          strip query = [] \<or> \<not> truthy (snd (cached_fetch L w (''search_movies_'' @ query @ ''_'' @ str_int page) ''search/movie''
                   [(''query'', JStr query), (''page'', JInt page)] 1800)) \<or> py_in ''results'' (snd (cached_fetch L w (''search_movies_'' @ query @ ''_'' @ str_int page) ''search/movie''
                   [(''query'', JStr query), (''page'', JInt page)] 1800)) = Inr False \<or>
          (\<exists>kvs. (snd (cached_fetch L w (''search_movies_'' @ query @ ''_'' @ str_int page) ''search/movie''
                   [(''query'', JStr query), (''page'', JInt page)] 1800)) = JDict kvs \<and> map_of kvs ''total_pages'' = Some (JInt 0)))"
  proof (cases "strip query = []")
    case True
    then show ?thesis by simp
  next
    case False
    then show ?thesis
      unfolding search_movies_def using tail_pages [of "cached_fetch L w (''search_movies_'' @ query @ ''_'' @ str_int page) ''search/movie''
                   [(''query'', JStr query), (''page'', JInt page)] 1800" L]
      by simp
  qed
  show ?thesis unfolding Let_def by (rule conjI [OF t conjI [OF p s]])
qed

theorem total_pages_reported_witness:
  "(\<exists>w' ms. fetch_trending_movies one_page_env empty_world ''day'' 1 = (w', Inr (ms, JInt 1))) \<and>
   (\<exists>w' ms. fetch_popular_movies one_page_env empty_world 1 = (w', Inr (ms, JInt 1))) \<and>
   (\<exists>w' ms. search_movies one_page_env empty_world ''matrix'' 1 = (w', Inr (ms, JInt 1)))"
  using total_pages_reported [of one_page_env empty_world "''day''" 1 "''matrix''"]
  by (simp add: one_page_env_def run_defs strip_def isspace_def)

lemma cached_fetch_frame:
  "movies (fst (cached_fetch L w key ep ps ttl)) = movies w \<and>
   genres (fst (cached_fetch L w key ep ps ttl)) = genres w \<and>
   movie_genres (fst (cached_fetch L w key ep ps ttl)) = movie_genres w"
  by (simp add: cached_fetch_def cache_get_def make_request_def cache_set_def Let_def
           split: prod.splits reply.splits)

lemma genre_get_or_create_appends:
  assumes "genre_get_or_create L gs jid jname = Inr gs'"
  shows "\<exists>new. gs' = gs @ new \<and> (\<forall>g \<in> set new. genre_tmdb_id g \<notin> genre_tmdb_id ` set gs)"
proof -
  from assms obtain i where i: "int_field L jid = Some i"
    by (auto simp: genre_get_or_create_def split: option.splits)
  show ?thesis
  proof (cases "filter (\<lambda>g. genre_tmdb_id g = i) gs")
    case Nil
    then have fresh: "i \<notin> genre_tmdb_id ` set gs" by (auto simp: filter_empty_conv)
    from assms i Nil obtain n where
      "gs' = gs @ [\<lparr>genre_pk = next_pk (map genre_pk gs), genre_tmdb_id = i, name = n\<rparr>]"
      by (auto simp: genre_get_or_create_def split: option.splits)
    with fresh show ?thesis by simp
  next
    case (Cons g rest)
    with assms i have "gs' = gs"
      by (cases rest) (auto simp: genre_get_or_create_def)
    then show ?thesis by simp
  qed
qed

lemma create_genres_appends:
  "\<exists>new. fst (create_genres L gs items) = gs @ new \<and>
         (\<forall>g \<in> set new. genre_tmdb_id g \<notin> genre_tmdb_id ` set gs)"
proof (induction items arbitrary: gs)
  case Nil
  then show ?case by simp
next
  case (Cons genre_data rest)
  show ?case
  proof (cases "py_getitem genre_data ''id''")
    case (Inl e)
    then show ?thesis by simp
  next
    case jid: (Inr jid)
    show ?thesis
    proof (cases "py_getitem genre_data ''name''")
      case (Inl e)
      with jid show ?thesis by simp
    next
      case jname: (Inr jname)
      show ?thesis
      proof (cases "genre_get_or_create L gs jid jname")
        case (Inl e)
        with jid jname show ?thesis by simp
      next
        case (Inr gs')
        from genre_get_or_create_appends [OF Inr] obtain new1 where
          n1: "gs' = gs @ new1" "\<forall>g \<in> set new1. genre_tmdb_id g \<notin> genre_tmdb_id ` set gs" by blast
        from Cons.IH [of gs'] obtain new2 where
          n2: "fst (create_genres L gs' rest) = gs' @ new2"
              "\<forall>g \<in> set new2. genre_tmdb_id g \<notin> genre_tmdb_id ` set gs'" by blast
        have "fst (create_genres L gs (genre_data # rest)) = gs @ (new1 @ new2)"
          using jid jname Inr n1 n2 by simp
        moreover have "\<forall>g \<in> set (new1 @ new2). genre_tmdb_id g \<notin> genre_tmdb_id ` set gs"
          using n1 n2 by auto
        ultimately show ?thesis by blast
      qed
    qed
  qed
qed

lemma fetch_genres_genres:
  "genres (fst (fetch_genres L w)) = genres w \<or>
   (\<exists>items. genres (fst (fetch_genres L w)) = fst (create_genres L (genres w) items))"
proof -
  obtain w1 d where cf: "cached_fetch L w ''tmdb_genres'' ''genre/movie/list'' [] (cache_timeout L ''GENRES'') = (w1, d)"
    by (cases "cached_fetch L w ''tmdb_genres'' ''genre/movie/list'' [] (cache_timeout L ''GENRES'')")
  have g1: "genres w1 = genres w"
    using cached_fetch_frame [of L w "''tmdb_genres''" "''genre/movie/list''" "[]" "cache_timeout L ''GENRES''"] cf
    by simp
  show ?thesis
    unfolding fetch_genres_def cf
    by (auto simp: g1 split: sum.splits bool.splits prod.splits) (metis fst_conv)+
qed

text \<open>
  Claim C9, amended. A genre-catalog fetch never changes a genre that exists locally:
  the genre table after \<^verbatim>\<open>fetch_genres\<close> is the table before it followed by new rows,
  and every new row has a provider ID that no row had before. So a stored name is never
  corrected; genres are immutable once created.
\<close>

theorem fetch_genres_keeps_rows:
  "\<exists>new. genres (fst (fetch_genres L w)) = genres w @ new \<and>
         (\<forall>g \<in> set new. genre_tmdb_id g \<notin> genre_tmdb_id ` set (genres w))"
  using fetch_genres_genres [of L w] create_genres_appends [of L "genres w"]
  by (metis append_Nil2 empty_iff list.set(1))

theorem fetch_genres_keeps_rows_witness:
  "genres (fst (fetch_genres demo_env stale_world)) =
     genres stale_world @ [\<lparr>genre_pk = 2, genre_tmdb_id = 18, name = ''Drama''\<rparr>]"
  using fetch_genres_keeps_rows [of demo_env stale_world]
  by (simp add: stale_world_def run_defs)

text \<open>
  Claim C9 fails as stated. The store holds genre 28 under the name Akshun, the provider's
  catalog names genre 28 Action; after \<^verbatim>\<open>fetch_genres\<close> the stored name is still Akshun
  (\<^verbatim>\<open>get_or_create\<close> only reads a row that exists).
\<close>

theorem genre_name_not_corrected:
  "remote demo_env (effects (fst (cache_get stale_world ''tmdb_genres''))) ''api/genre/movie/list''
     [(''api_key'', JStr ''k'')] =
     Returns (JDict [(''genres'', JList [JDict [(''id'', JInt 28), (''name'', JStr ''Action'')],
                                         JDict [(''id'', JInt 18), (''name'', JStr ''Drama'')]])]) \<and>
   filter (\<lambda>g. genre_tmdb_id g = 28) (genres stale_world) =
     [\<lparr>genre_pk = 1, genre_tmdb_id = 28, name = ''Akshun''\<rparr>] \<and>
   filter (\<lambda>g. genre_tmdb_id g = 28) (genres (fst (fetch_genres demo_env stale_world))) =
     [\<lparr>genre_pk = 1, genre_tmdb_id = 28, name = ''Akshun''\<rparr>]"
  by (simp add: stale_world_def run_defs)

section \<open>Pagination by genre\<close>

lemma ceil_div_20: "(int n + 19) div 20 = \<lceil>real n / 20\<rceil>"
proof -
  have "\<lceil>real n / 20\<rceil> = \<lceil>of_int (int n) / (of_int 20 :: real)\<rceil>" by simp
  also have "\<dots> = - (- int n div 20)" by (rule ceiling_divide_eq_div)
  also have "\<dots> = (int n + 19) div 20" by linarith
  finally show ?thesis by simp
qed

lemma order_by_popularity_desc_sorted:
  "sorted_wrt (\<lambda>a b. popularity b \<le> popularity a) (order_by_popularity_desc ms)"
proof -
  have "sorted (map (\<lambda>m. - popularity m) (sort_key (\<lambda>m. - popularity m) ms))"
    by (rule sorted_sort_key)
  then show ?thesis by (simp add: order_by_popularity_desc_def sorted_map)
qed

lemma order_by_popularity_desc_mset: "mset (order_by_popularity_desc ms) = mset ms"
  by (simp add: order_by_popularity_desc_def)

lemma filter_eq_distinct:
  "distinct xs \<Longrightarrow> filter (\<lambda>y. y = x) xs = (if x \<in> set xs then [x] else [])"
  by (induction xs) auto

lemma link_fields: "(link_movie l = a \<and> link_genre l = b) = (l = \<lparr>link_movie = a, link_genre = b\<rparr>)"
  by (cases l) auto

lemma movies_of_genre_filter:
  assumes "distinct (movie_genres w)"
  shows "movies_of_genre w g =
         filter (\<lambda>m. \<exists>l \<in> set (movie_genres w). link_movie l = movie_pk m \<and> link_genre l = genre_pk g)
           (movies w)"
proof -
  have one: "map (\<lambda>l. m)
               (filter (\<lambda>l. link_movie l = movie_pk m \<and> link_genre l = genre_pk g) (movie_genres w)) =
             (if \<exists>l \<in> set (movie_genres w). link_movie l = movie_pk m \<and> link_genre l = genre_pk g
              then [m] else [])" for m
    unfolding link_fields filter_eq_distinct [OF assms] by auto
  have "concat (map (\<lambda>m. if c m then [m] else []) ms) = filter c ms" for c and ms :: "movie list"
    by (induction ms) auto
  then show ?thesis unfolding movies_of_genre_def one by simp
qed

text \<open>
  Claim C5 fails as stated. With one local genre named Action, page 0 makes the slice
  bounds negative and \<^verbatim>\<open>get_movies_by_genre\<close> raises instead of returning a page; so does a
  page whose offset is beyond the database's integer range; and when two local genres
  match the name, \<^verbatim>\<open>Genre.objects.get\<close> raises MultipleObjectsReturned.
\<close>

theorem by_genre_page_zero_raises:
  "filter (\<lambda>g. iexact demo_env (name g) ''Action'') (genres shelf_world) =
     [\<lparr>genre_pk = 1, genre_tmdb_id = 28, name = ''Action''\<rparr>] \<and>
   get_movies_by_genre demo_env shelf_world ''Action'' 0 = Inl ValueError \<and>
   get_movies_by_genre demo_env shelf_world ''Action'' 1000000000000000000 = Inl DatabaseError \<and>
   get_movies_by_genre demo_env twin_genre_world ''Action'' 1 = Inl MultipleObjectsReturned"
  by (simp add: get_movies_by_genre_def shelf_world_def twin_genre_world_def demo_env_def
        empty_world_def queryset_slice_def db_max_int_def Let_def)

text \<open>
  Claim C5, amended. Take a store whose link table holds no (movie, genre) pair twice (the
  \<^verbatim>\<open>unique_together\<close> of \<^verbatim>\<open>MovieGenre\<close>), a genre name with exactly one local match \<open>g\<close>, and
  a page number of at least 1 whose offset, 20 times the page number minus one, is
  within the database's integer range. The by-genre operation then returns the page
  of 20 cut out of a list that holds exactly the stored movies linked to \<open>g\<close>, each once,
  in descending order of popularity; and it reports as total pages the ceiling of the
  number of those movies divided by 20, which is 3 for 45 movies.
\<close>

theorem by_genre_pagination:
  assumes "filter (\<lambda>g. iexact L (name g) genre_name) (genres w) = [g]"
      and "1 \<le> page" and "(page - 1) * 20 \<le> db_max_int"
      and "distinct (movie_genres w)"
  shows "let associated =
               filter (\<lambda>m. \<exists>l \<in> set (movie_genres w). link_movie l = movie_pk m \<and> link_genre l = genre_pk g)
                 (movies w)
         in \<exists>ordered.
              mset ordered = mset associated \<and>
              sorted_wrt (\<lambda>a b. popularity b \<le> popularity a) ordered \<and>
              get_movies_by_genre L w genre_name page =
                Inr (take 20 (drop (nat ((page - 1) * 20)) ordered), \<lceil>real (length associated) / 20\<rceil>) \<and>
              (length associated = 45 \<longrightarrow>
                 (\<exists>ms. get_movies_by_genre L w genre_name page = Inr (ms, 3)))"
proof -
  let ?assoc = "filter (\<lambda>m. \<exists>l \<in> set (movie_genres w). link_movie l = movie_pk m \<and> link_genre l = genre_pk g)
                  (movies w)"
  let ?ordered = "order_by_popularity_desc ?assoc"
  have mg: "movies_of_genre w g = ?assoc" by (rule movies_of_genre_filter [OF assms(4)])
  have len: "length ?ordered = length ?assoc"
    by (simp add: order_by_popularity_desc_def)
  have r: "get_movies_by_genre L w genre_name page =
           Inr (take 20 (drop (nat ((page - 1) * 20)) ?ordered), \<lceil>real (length ?assoc) / 20\<rceil>)"
    using assms(1-3)
    by (simp add: get_movies_by_genre_def queryset_slice_def Let_def mg len ceil_div_20)
  have c: "\<lceil>real 45 / 20\<rceil> = (3 :: int)" by (simp add: ceiling_eq_iff)
  have "mset ?ordered = mset ?assoc \<and>
        sorted_wrt (\<lambda>a b. popularity b \<le> popularity a) ?ordered \<and>
        get_movies_by_genre L w genre_name page =
          Inr (take 20 (drop (nat ((page - 1) * 20)) ?ordered), \<lceil>real (length ?assoc) / 20\<rceil>) \<and>
        (length ?assoc = 45 \<longrightarrow> (\<exists>ms. get_movies_by_genre L w genre_name page = Inr (ms, 3)))"
    using r c by (simp add: order_by_popularity_desc_sorted order_by_popularity_desc_mset)
  then show ?thesis unfolding Let_def by (rule exI [of _ ?ordered])
qed

theorem by_genre_pagination_witness:
  "distinct (movie_genres shelf_world) \<and>
   (1 - 1) * 20 \<le> db_max_int \<and>
   get_movies_by_genre demo_env shelf_world ''Action'' 1 =
     Inr ([\<lparr>movie_pk = 2, tmdb_id = 20, title = ''B'', overview = [], release_date = None,
             vote_average = 6, popularity = 9, poster_path = [], backdrop_path = []\<rparr>,
           \<lparr>movie_pk = 3, tmdb_id = 30, title = ''C'', overview = [], release_date = None,
             vote_average = 8, popularity = 7, poster_path = [], backdrop_path = []\<rparr>,
           \<lparr>movie_pk = 1, tmdb_id = 10, title = ''A'', overview = [], release_date = None,
             vote_average = 7, popularity = 5, poster_path = [], backdrop_path = []\<rparr>], 1)"
  using by_genre_pagination [of demo_env "''Action''" shelf_world
          "\<lparr>genre_pk = 1, genre_tmdb_id = 28, name = ''Action''\<rparr>" 1]
  by (simp add: shelf_world_def demo_env_def empty_world_def movies_of_genre_def db_max_int_def
        get_movies_by_genre_def queryset_slice_def order_by_popularity_desc_def sort_key_def
        ceiling_eq_iff Let_def)

text \<open>
  Claim C7, at a failing input. The store holds the genre Action with no movie. The
  service returns the same pair, no movies and zero pages, for Action and for the
  unknown genre Western, and the view answers not-found for both: the existing genre
  is reported as not found.
\<close>

theorem empty_genre_reported_not_found:
  "filter (\<lambda>g. iexact demo_env (name g) ''Action'') (genres empty_genre_world) =
     [\<lparr>genre_pk = 1, genre_tmdb_id = 28, name = ''Action''\<rparr>] \<and>
   get_movies_by_genre demo_env empty_genre_world ''Action'' 1 = Inr ([], 0) \<and>
   get_movies_by_genre demo_env empty_genre_world ''Western'' 1 = Inr ([], 0) \<and>
   movies_by_genre demo_env empty_genre_world ''Action'' 1 = Inr NotFound \<and>
   movies_by_genre demo_env empty_genre_world ''Western'' 1 = Inr NotFound"
  by (simp add: movies_by_genre_def get_movies_by_genre_def empty_genre_world_def demo_env_def
        empty_world_def queryset_slice_def db_max_int_def movies_of_genre_def
        order_by_popularity_desc_def strip_def isspace_def Let_def)

section \<open>Idempotent upsert and genre replacement\<close>

lemma next_pk_fresh: "p \<in> set pks \<Longrightarrow> p < next_pk pks"
  unfolding next_pk_def by (induction pks) auto

lemma filter_key_distinct:
  "distinct (map f xs) \<Longrightarrow> filter (\<lambda>x. f x = a) xs = y # y' # ys \<Longrightarrow> False"
proof (induction xs arbitrary: y y' ys)
  case Nil
  then show ?case by simp
next
  case (Cons x xs)
  show ?case
  proof (cases "f x = a")
    case True
    with Cons.prems have "filter (\<lambda>x. f x = a) xs = y' # ys" by simp
    then have "y' \<in> set (filter (\<lambda>x. f x = a) xs)" by simp
    then have "y' \<in> set xs" "f y' = a" by auto
    with True Cons.prems(1) show False by (auto simp: image_iff)
  next
    case False
    with Cons show False by simp
  qed
qed

lemma movie_row_pk:
  "movie_row L p i kvs rd = Some r \<Longrightarrow> movie_row L q i kvs rd = Some (r\<lparr>movie_pk := q\<rparr>)"
  by (auto simp: movie_row_def split: option.splits)

lemma movie_row_keys:
  "movie_row L p i kvs rd = Some r \<Longrightarrow> movie_pk r = p \<and> tmdb_id r = i"
  by (auto simp: movie_row_def split: option.splits)

lemma update_or_create_upsert:
  assumes pk: "distinct (map movie_pk rows)" and tid: "distinct (map tmdb_id rows)"
      and i: "int_field L jid = Some i"
      and r: "movie_row L 0 i kvs rd = Some r"
  shows "\<exists>rows' m. update_or_create L rows jid kvs rd = Inr (rows', m) \<and>
           filter (\<lambda>x. tmdb_id x = i) rows' = [m] \<and> m = r\<lparr>movie_pk := movie_pk m\<rparr> \<and>
           distinct (map movie_pk rows') \<and> distinct (map tmdb_id rows')"
proof (cases "filter (\<lambda>x. tmdb_id x = i) rows")
  case Nil
  let ?p = "next_pk (map movie_pk rows)"
  let ?m = "r\<lparr>movie_pk := ?p\<rparr>"
  have row: "movie_row L ?p i kvs rd = Some ?m" by (rule movie_row_pk [OF r])
  have keys: "movie_pk ?m = ?p" "tmdb_id ?m = i" using movie_row_keys [OF row] by simp_all
  have u: "update_or_create L rows jid kvs rd = Inr (rows @ [?m], ?m)"
    by (simp add: update_or_create_def i Nil row)
  from Nil have none: "\<forall>x \<in> set rows. tmdb_id x \<noteq> i" by (simp add: filter_empty_conv)
  have f: "filter (\<lambda>x. tmdb_id x = i) (rows @ [?m]) = [?m]" using Nil keys by simp
  have "?p \<notin> set (map movie_pk rows)" using next_pk_fresh [of ?p "map movie_pk rows"] by auto
  then have d1: "distinct (map movie_pk (rows @ [?m]))" using pk by simp
  have d2: "distinct (map tmdb_id (rows @ [?m]))"
    using tid none movie_row_keys [OF r] by auto
  show ?thesis using u f d1 d2 by (intro exI [of _ "rows @ [?m]"] exI [of _ ?m]) simp
next
  case (Cons old rest)
  have rest: "rest = []"
  proof (cases rest)
    case Nil
    then show ?thesis .
  next
    case (Cons old' others)
    with \<open>filter (\<lambda>x. tmdb_id x = i) rows = old # rest\<close> filter_key_distinct [OF tid]
    show ?thesis by blast
  qed
  with Cons have fl: "filter (\<lambda>x. tmdb_id x = i) rows = [old]" by simp
  then have "old \<in> set (filter (\<lambda>x. tmdb_id x = i) rows)" by simp
  then have old: "old \<in> set rows" "tmdb_id old = i" by auto
  let ?m = "r\<lparr>movie_pk := movie_pk old\<rparr>"
  let ?f = "\<lambda>x. if movie_pk x = movie_pk old then ?m else x"
  have row: "movie_row L (movie_pk old) i kvs rd = Some ?m" by (rule movie_row_pk [OF r])
  have keys: "movie_pk ?m = movie_pk old" "tmdb_id ?m = i" using movie_row_keys [OF row] by simp_all
  have u: "update_or_create L rows jid kvs rd = Inr (map ?f rows, ?m)"
    by (simp add: update_or_create_def i fl row)
  have same: "x = old" if "x \<in> set rows" "movie_pk x = movie_pk old" for x
    using pk that old(1) by (meson distinct_map inj_onD)
  have pks: "map movie_pk (map ?f rows) = map movie_pk rows" using keys by auto
  have ft: "tmdb_id (?f x) = tmdb_id x" if "x \<in> set rows" for x
  proof (cases "movie_pk x = movie_pk old")
    case True
    then have "x = old" using same that by blast
    then show ?thesis using keys old by simp
  next
    case False
    then show ?thesis by simp
  qed
  have tids: "map tmdb_id (map ?f rows) = map tmdb_id rows"
  proof -
    have "map (\<lambda>x. tmdb_id (?f x)) rows = map tmdb_id rows"
      by (rule map_cong [OF refl]) (rule ft)
    then show ?thesis by (simp only: map_map comp_def)
  qed
  have "filter (\<lambda>x. tmdb_id x = i) (map ?f rows) = map ?f (filter (\<lambda>x. tmdb_id (?f x) = i) rows)"
    by (simp add: filter_map comp_def)
  also have "filter (\<lambda>x. tmdb_id (?f x) = i) rows = filter (\<lambda>x. tmdb_id x = i) rows"
    by (rule filter_cong [OF refl]) (simp only: ft)
  finally have f: "filter (\<lambda>x. tmdb_id x = i) (map ?f rows) = [?m]" using fl by simp
  show ?thesis
    using u f pk tid pks tids
    by (intro exI [of _ "map ?f rows"] exI [of _ ?m]) (simp del: map_map)
qed

lemma fetch_genres_fst_frame:
  "movies (fst (fetch_genres L w)) = movies w \<and>
   movie_genres (fst (fetch_genres L w)) = movie_genres w"
proof -
  obtain w1 d where cf: "cached_fetch L w ''tmdb_genres'' ''genre/movie/list'' [] (cache_timeout L ''GENRES'') = (w1, d)"
    by (cases "cached_fetch L w ''tmdb_genres'' ''genre/movie/list'' [] (cache_timeout L ''GENRES'')")
  have g1: "movies w1 = movies w" "movie_genres w1 = movie_genres w"
    using cached_fetch_frame [of L w "''tmdb_genres''" "''genre/movie/list''" "[]" "cache_timeout L ''GENRES''"] cf
    by simp_all
  show ?thesis
    unfolding fetch_genres_def cf
    by (auto simp: g1 split: sum.splits bool.splits prod.splits)
qed

lemma fetch_genres_frame:
  assumes "fetch_genres L w = (w2, res)"
  shows "movies w2 = movies w \<and> movie_genres w2 = movie_genres w"
  using fetch_genres_fst_frame [of L w] assms by simp

lemma merge_try_movies:
  assumes rd: "parse_release_date L kvs = Inr rd"
      and jid: "map_of kvs ''id'' = Some jid"
      and u: "update_or_create L (movies w) jid kvs rd = Inr (rows', m)"
  shows "movies (fst (merge_try L w kvs)) = rows' \<and>
         (\<forall>m'. snd (merge_try L w kvs) = Inr m' \<longrightarrow> m' = m)"
proof (cases "genre_ids_of kvs")
  case (Inl e)
  then show ?thesis by (simp add: merge_try_def rd jid u)
next
  case gl: (Inr gl)
  show ?thesis
  proof (cases "truthy gl")
    case False
    with gl show ?thesis by (simp add: merge_try_def rd jid u)
  next
    case True
    obtain w2 res where fg: "fetch_genres L (w\<lparr>movies := rows'\<rparr>) = (w2, res)"
      by (cases "fetch_genres L (w\<lparr>movies := rows'\<rparr>)")
    from fetch_genres_frame [OF fg] have m2: "movies w2 = rows'" by simp
    show ?thesis
      using gl True fg m2
      by (auto simp: merge_try_def rd jid u Let_def split: sum.splits prod.splits)
  qed
qed

lemma create_or_update_movie_movies:
  "movies (fst (create_or_update_movie L w (JDict kvs) d)) = movies (fst (merge_try L w kvs)) \<and>
   (\<forall>m'. snd (create_or_update_movie L w (JDict kvs) d) = Inr (Some m') \<longrightarrow>
         snd (merge_try L w kvs) = Inr m')"
  by (cases "merge_try L w kvs") (auto simp: create_or_update_movie_def split: sum.splits)

lemma merge_upserts:
  assumes pk: "distinct (map movie_pk (movies w))" and tid: "distinct (map tmdb_id (movies w))"
      and rd: "parse_release_date L kvs = Inr rd"
      and jid: "map_of kvs ''id'' = Some jid"
      and i: "int_field L jid = Some i"
      and r: "movie_row L 0 i kvs rd = Some r"
  shows "\<exists>m. filter (\<lambda>x. tmdb_id x = i) (movies (fst (create_or_update_movie L w (JDict kvs) d))) = [m] \<and>
             m = r\<lparr>movie_pk := movie_pk m\<rparr> \<and>
             (\<forall>m'. snd (create_or_update_movie L w (JDict kvs) d) = Inr (Some m') \<longrightarrow> m' = m) \<and>
             distinct (map movie_pk (movies (fst (create_or_update_movie L w (JDict kvs) d)))) \<and>
             distinct (map tmdb_id (movies (fst (create_or_update_movie L w (JDict kvs) d))))"
proof -
  from update_or_create_upsert [OF pk tid i r] obtain rows' m where
    u: "update_or_create L (movies w) jid kvs rd = Inr (rows', m)" and
    p: "filter (\<lambda>x. tmdb_id x = i) rows' = [m]" "m = r\<lparr>movie_pk := movie_pk m\<rparr>"
       "distinct (map movie_pk rows')" "distinct (map tmdb_id rows')"
    by blast
  from merge_try_movies [OF rd jid u] create_or_update_movie_movies [of L w kvs d]
  have mv: "movies (fst (create_or_update_movie L w (JDict kvs) d)) = rows'"
    and rt: "\<forall>m'. snd (create_or_update_movie L w (JDict kvs) d) = Inr (Some m') \<longrightarrow> m' = m"
    by auto
  show ?thesis using p rt unfolding mv by blast
qed

lemma merge_twice_row:
  assumes "store_ok w"
      and "parse_release_date L kvs = Inr rd"
      and "map_of kvs ''id'' = Some jid"
      and "int_field L jid = Some i"
      and "movie_row L 0 i kvs rd = Some r"
  shows "let w1 = fst (create_or_update_movie L w (JDict kvs) d);
             w2 = fst (create_or_update_movie L w1 (JDict kvs) d)
         in \<exists>m. filter (\<lambda>x. tmdb_id x = i) (movies w2) = [m] \<and>
                 m = r\<lparr>movie_pk := movie_pk m\<rparr> \<and>
                 (\<forall>m'. snd (create_or_update_movie L w1 (JDict kvs) d) = Inr (Some m') \<longrightarrow> m' = m)"
proof -
  let ?w1 = "fst (create_or_update_movie L w (JDict kvs) d)"
  from assms(1) have pk: "distinct (map movie_pk (movies w))" and tid: "distinct (map tmdb_id (movies w))"
    by (simp_all add: store_ok_def)
  from merge_upserts [OF pk tid assms(2-5), of d]
  have pk1: "distinct (map movie_pk (movies ?w1))" and tid1: "distinct (map tmdb_id (movies ?w1))"
    by blast+
  from merge_upserts [OF pk1 tid1 assms(2-5), of d] show ?thesis
    unfolding Let_def by blast
qed

text \<open>
  Idempotence where every value of the record is accepted by its field. In a store that
  satisfies its uniqueness constraints, take a record whose \<^verbatim>\<open>id\<close> the integer field
  accepts as \<open>i\<close>, whose release date is absent, falsy or a string, and whose other
  values, with the defaults of lines 151 to 157, the fields accept as \<open>t\<close>, \<open>ov\<close>, \<open>va\<close>,
  \<open>po\<close>, \<open>pp\<close> and \<open>bp\<close>. After the record has been merged twice the movie table holds
  exactly one row with provider ID \<open>i\<close>; its fields are these values, its release date is
  the date parsed from the record's string (none when the string is empty or does not
  parse, or when there is no string); and a movie returned by the second merge is that
  row.
\<close>

lemma merge_twice_stores_record:
  assumes "store_ok w"
      and "map_of kvs ''id'' = Some jid" and "int_field L jid = Some i"
      and "case dict_get kvs ''release_date'' JNull of JStr s \<Rightarrow> True | v \<Rightarrow> \<not> truthy v"
      and "char_field L (Some 200) (dict_get kvs ''title'' (JStr [])) = Some t"
      and "char_field L None (dict_get kvs ''overview'' (JStr [])) = Some ov"
      and "float_field L (dict_get kvs ''vote_average'' (JFloat 0)) = Some va"
      and "float_field L (dict_get kvs ''popularity'' (JFloat 0)) = Some po"
      and "char_field L (Some 200) (dict_get kvs ''poster_path'' (JStr [])) = Some pp"
      and "char_field L (Some 200) (dict_get kvs ''backdrop_path'' (JStr [])) = Some bp"
  shows "let w1 = fst (create_or_update_movie L w (JDict kvs) d);
             w2 = fst (create_or_update_movie L w1 (JDict kvs) d)
         in \<exists>m. filter (\<lambda>x. tmdb_id x = i) (movies w2) = [m] \<and>
                 title m = t \<and> overview m = ov \<and>
                 release_date m =
                   (case dict_get kvs ''release_date'' JNull of
                      JStr s \<Rightarrow> if s = [] then None else strptime L s
                    | v \<Rightarrow> None) \<and>
                 vote_average m = va \<and> popularity m = po \<and>
                 poster_path m = pp \<and> backdrop_path m = bp \<and>
                 (\<forall>m'. snd (create_or_update_movie L w1 (JDict kvs) d) = Inr (Some m') \<longrightarrow> m' = m)"
proof -
  let ?rd = "case dict_get kvs ''release_date'' JNull of
               JStr s \<Rightarrow> if s = [] then None else strptime L s
             | v \<Rightarrow> None"
  let ?r = "\<lparr>movie_pk = 0, tmdb_id = i, title = t, overview = ov, release_date = ?rd,
             vote_average = va, popularity = po, poster_path = pp, backdrop_path = bp\<rparr>"
  have rd: "parse_release_date L kvs = Inr ?rd"
    using assms(4) by (cases "dict_get kvs ''release_date'' JNull") (simp_all add: parse_release_date_def)
  have row: "movie_row L 0 i kvs ?rd = Some ?r"
    by (simp add: movie_row_def assms(5-10))
  from merge_twice_row [OF assms(1) rd assms(2,3) row, of d] obtain m where
    m: "filter (\<lambda>x. tmdb_id x = i)
          (movies (fst (create_or_update_movie L (fst (create_or_update_movie L w (JDict kvs) d)) (JDict kvs) d))) = [m]"
       "m = ?r\<lparr>movie_pk := movie_pk m\<rparr>"
       "\<forall>m'. snd (create_or_update_movie L (fst (create_or_update_movie L w (JDict kvs) d)) (JDict kvs) d) =
              Inr (Some m') \<longrightarrow> m' = m"
    unfolding Let_def by blast
  from m(2) have f: "title m = t" "overview m = ov" "release_date m = ?rd" "vote_average m = va"
    "popularity m = po" "poster_path m = pp" "backdrop_path m = bp"
    by (cases m; simp)+
  show ?thesis unfolding Let_def using m(1,3) f by blast
qed

text \<open>
  Claim C2, at a failing input. A record for a movie without a poster, whose
  \<^verbatim>\<open>poster_path\<close> is \<^verbatim>\<open>null\<close>, is merged twice into the empty store. Line 156 passes the
  \<^verbatim>\<open>None\<close> on (the default of \<^verbatim>\<open>get\<close> applies to a missing key only), the column of
  \<^verbatim>\<open>models.py\<close> line 32 does not take it, and both merges return \<^verbatim>\<open>None\<close>: the store ends
  with no row for provider ID 1, not with one.
\<close>

theorem null_poster_path_stores_no_row:
  "snd (create_or_update_movie demo_env empty_world (JDict heat_no_poster) False) = Inr None \<and>
   snd (create_or_update_movie demo_env
          (fst (create_or_update_movie demo_env empty_world (JDict heat_no_poster) False))
          (JDict heat_no_poster) False) = Inr None \<and>
   movies (fst (create_or_update_movie demo_env
                  (fst (create_or_update_movie demo_env empty_world (JDict heat_no_poster) False))
                  (JDict heat_no_poster) False)) = []"
  by (simp add: heat_no_poster_def run_defs)

lemma genre_get_or_create_distinct:
  assumes pk: "distinct (map genre_pk gs)" and tid: "distinct (map genre_tmdb_id gs)"
      and r: "genre_get_or_create L gs jid jname = Inr gs'"
  shows "distinct (map genre_pk gs') \<and> distinct (map genre_tmdb_id gs')"
proof -
  from r obtain i where i: "int_field L jid = Some i"
    by (auto simp: genre_get_or_create_def split: option.splits)
  show ?thesis
  proof (cases "filter (\<lambda>g. genre_tmdb_id g = i) gs")
    case Nil
    then have fresh: "i \<notin> genre_tmdb_id ` set gs" by (auto simp: filter_empty_conv)
    from r i Nil obtain n where
      gs': "gs' = gs @ [\<lparr>genre_pk = next_pk (map genre_pk gs), genre_tmdb_id = i, name = n\<rparr>]"
      by (auto simp: genre_get_or_create_def split: option.splits)
    have "next_pk (map genre_pk gs) \<notin> set (map genre_pk gs)"
      using next_pk_fresh [of "next_pk (map genre_pk gs)" "map genre_pk gs"] by auto
    with pk tid fresh show ?thesis unfolding gs' by simp
  next
    case (Cons g rest)
    with r i have "gs' = gs"
      by (cases rest) (auto simp: genre_get_or_create_def)
    with pk tid show ?thesis by simp
  qed
qed

lemma create_genres_distinct:
  "distinct (map genre_pk gs) \<Longrightarrow> distinct (map genre_tmdb_id gs) \<Longrightarrow>
   distinct (map genre_pk (fst (create_genres L gs items))) \<and>
   distinct (map genre_tmdb_id (fst (create_genres L gs items)))"
proof (induction items arbitrary: gs)
  case Nil
  then show ?case by simp
next
  case (Cons genre_data rest)
  show ?case
  proof (cases "py_getitem genre_data ''id''")
    case (Inl e)
    with Cons.prems show ?thesis by simp
  next
    case jid: (Inr jid)
    show ?thesis
    proof (cases "py_getitem genre_data ''name''")
      case (Inl e)
      with jid Cons.prems show ?thesis by simp
    next
      case jname: (Inr jname)
      show ?thesis
      proof (cases "genre_get_or_create L gs jid jname")
        case (Inl e)
        with jid jname Cons.prems show ?thesis by simp
      next
        case (Inr gs')
        from genre_get_or_create_distinct [OF Cons.prems Inr]
        have "distinct (map genre_pk gs')" "distinct (map genre_tmdb_id gs')" by simp_all
        from Cons.IH [OF this] show ?thesis using jid jname Inr by simp
      qed
    qed
  qed
qed

lemma fetch_genres_distinct:
  assumes "distinct (map genre_pk (genres w))" and "distinct (map genre_tmdb_id (genres w))"
  shows "distinct (map genre_pk (genres (fst (fetch_genres L w)))) \<and>
         distinct (map genre_tmdb_id (genres (fst (fetch_genres L w))))"
  using fetch_genres_genres [of L w] create_genres_distinct [OF assms, of L] assms
  by auto

lemma link_get_or_create_set:
  assumes "link_get_or_create ls m g = Inr ls'"
  shows "set ls' = insert \<lparr>link_movie = m, link_genre = g\<rparr> (set ls)"
proof (cases "filter (\<lambda>l. link_movie l = m \<and> link_genre l = g) ls")
  case Nil
  with assms show ?thesis by (auto simp: link_get_or_create_def)
next
  case (Cons l rest)
  then have "l \<in> set (filter (\<lambda>l. link_movie l = m \<and> link_genre l = g) ls)" by simp
  then have "l \<in> set ls" "link_movie l = m" "link_genre l = g" by auto
  then have "l \<in> set ls" and "l = \<lparr>link_movie = m, link_genre = g\<rparr>" by (cases l; simp)+
  then have "\<lparr>link_movie = m, link_genre = g\<rparr> \<in> set ls" by simp
  moreover from assms Cons have "ls' = ls" by (cases rest) (auto simp: link_get_or_create_def)
  ultimately show ?thesis by auto
qed

lemma add_genre_links_set:
  "add_genre_links L gs m ls ids = (ls', Inr u) \<Longrightarrow>
   set ls' = set ls \<union> {\<lparr>link_movie = m, link_genre = genre_pk g\<rparr> | g.
                           g \<in> set gs \<and> (\<exists>j \<in> set ids. int_field L j = Some (genre_tmdb_id g))}"
proof (induction ids arbitrary: ls)
  case Nil
  then show ?case by simp
next
  case (Cons j rest)
  from Cons.prems obtain i where i: "int_field L j = Some i"
    by (auto split: option.splits)
  show ?case
  proof (cases "filter (\<lambda>g. genre_tmdb_id g = i) gs")
    case Nil
    then have none: "\<forall>g \<in> set gs. genre_tmdb_id g \<noteq> i" by (simp add: filter_empty_conv)
    from Cons.prems i Nil have "add_genre_links L gs m ls rest = (ls', Inr u)" by simp
    from Cons.IH [OF this] show ?thesis using i none by auto
  next
    case fl: (Cons g more_genres)
    show ?thesis
    proof (cases more_genres)
      case (Cons g' others)
      with Cons.prems i fl show ?thesis by simp
    next
      case Nil
      with fl have one: "filter (\<lambda>g. genre_tmdb_id g = i) gs = [g]" by simp
      then have "set (filter (\<lambda>g. genre_tmdb_id g = i) gs) = {g}" by simp
      then have only: "\<And>x. x \<in> set gs \<and> genre_tmdb_id x = i \<longleftrightarrow> x = g" by auto
      from Cons.prems i one obtain ls1 where
        l1: "link_get_or_create ls m (genre_pk g) = Inr ls1" and
        rec: "add_genre_links L gs m ls1 rest = (ls', Inr u)"
        by (auto split: sum.splits)
      have g: "g \<in> set gs" "genre_tmdb_id g = i" using only [of g] by simp_all
      have split: "{\<lparr>link_movie = m, link_genre = genre_pk x\<rparr> | x.
                     x \<in> set gs \<and> (\<exists>k \<in> set (j # rest). int_field L k = Some (genre_tmdb_id x))} =
                   insert \<lparr>link_movie = m, link_genre = genre_pk g\<rparr>
                    {\<lparr>link_movie = m, link_genre = genre_pk x\<rparr> | x.
                     x \<in> set gs \<and> (\<exists>k \<in> set rest. int_field L k = Some (genre_tmdb_id x))}"
        (is "?A = insert ?l ?B")
      proof (intro set_eqI iffI)
        fix l assume "l \<in> ?A"
        then obtain x k where x: "l = \<lparr>link_movie = m, link_genre = genre_pk x\<rparr>" "x \<in> set gs"
          "k \<in> set (j # rest)" "int_field L k = Some (genre_tmdb_id x)" by blast
        show "l \<in> insert ?l ?B"
        proof (cases "k = j")
          case True
          with x i have "genre_tmdb_id x = i" by simp
          with x only [of x] have "x = g" by simp
          with x show ?thesis by simp
        next
          case False
          with x have "k \<in> set rest" by simp
          with x show ?thesis by blast
        qed
      next
        fix l assume "l \<in> insert ?l ?B"
        then consider "l = ?l" | "l \<in> ?B" by blast
        then show "l \<in> ?A"
        proof cases
          case 1
          have "j \<in> set (j # rest)" by simp
          with 1 g i show ?thesis by blast
        next
          case 2
          then obtain x k where "l = \<lparr>link_movie = m, link_genre = genre_pk x\<rparr>" "x \<in> set gs"
            "k \<in> set rest" "int_field L k = Some (genre_tmdb_id x)" by blast
          moreover then have "k \<in> set (j # rest)" by simp
          ultimately show ?thesis by blast
        qed
      qed
      from link_get_or_create_set [OF l1] Cons.IH [OF rec] show ?thesis
        unfolding split by auto
    qed
  qed
qed

lemma update_or_create_distinct:
  assumes pk: "distinct (map movie_pk rows)" and tid: "distinct (map tmdb_id rows)"
      and u: "update_or_create L rows jid kvs rd = Inr (rows', m)"
  shows "distinct (map movie_pk rows') \<and> distinct (map tmdb_id rows') \<and> m \<in> set rows'"
proof -
  from u obtain i where i: "int_field L jid = Some i"
    by (auto simp: update_or_create_def split: option.splits)
  from u i obtain p where "movie_row L p i kvs rd = Some m"
    by (auto simp: update_or_create_def split: option.splits list.splits)
  from movie_row_pk [OF this] have r: "movie_row L 0 i kvs rd = Some (m\<lparr>movie_pk := 0\<rparr>)" .
  from update_or_create_upsert [OF pk tid i r] obtain rows2 m2 where
    a: "update_or_create L rows jid kvs rd = Inr (rows2, m2)"
       "filter (\<lambda>x. tmdb_id x = i) rows2 = [m2]"
       "distinct (map movie_pk rows2)" "distinct (map tmdb_id rows2)"
    by blast
  with u have e: "rows2 = rows'" "m2 = m" by simp_all
  from a(2) have "m2 \<in> set (filter (\<lambda>x. tmdb_id x = i) rows2)" by simp
  then have "m2 \<in> set rows2" by simp
  with a(3,4) e show ?thesis by simp
qed

lemma merge_try_links:
  assumes ok: "store_ok w"
      and mt: "merge_try L w kvs = (w', Inr m)"
      and gl: "genre_ids_of kvs = Inr gl"
  shows "store_ok w' \<and> m \<in> set (movies w') \<and>
         (if truthy gl then
            \<exists>ids. py_iter gl = Inr ids \<and>
              {l \<in> set (movie_genres w'). link_movie l = movie_pk m} =
                {\<lparr>link_movie = movie_pk m, link_genre = genre_pk g\<rparr> | g.
                   g \<in> set (genres w') \<and> (\<exists>j \<in> set ids. int_field L j = Some (genre_tmdb_id g))}
          else movie_genres w' = movie_genres w \<and> genres w' = genres w)"
proof -
  from mt obtain rd jid rows m0 where
    rd: "parse_release_date L kvs = Inr rd" and jid: "map_of kvs ''id'' = Some jid" and
    u: "update_or_create L (movies w) jid kvs rd = Inr (rows, m0)"
    by (auto simp: merge_try_def split: sum.splits option.splits)
  let ?w1 = "w\<lparr>movies := rows\<rparr>"
  from ok have d: "distinct (map movie_pk (movies w))" "distinct (map tmdb_id (movies w))"
    "distinct (map genre_pk (genres w))" "distinct (map genre_tmdb_id (genres w))"
    by (simp_all add: store_ok_def)
  from update_or_create_distinct [OF d(1,2) u]
  have dm: "distinct (map movie_pk rows)" "distinct (map tmdb_id rows)" "m0 \<in> set rows"
    by simp_all
  show ?thesis
  proof (cases "truthy gl")
    case False
    with mt have "w' = ?w1" "m = m0" by (simp_all add: merge_try_def rd jid u gl)
    with False d dm show ?thesis by (simp add: store_ok_def)
  next
    case True
    obtain w2 res where fg: "fetch_genres L ?w1 = (w2, res)" by (cases "fetch_genres L ?w1")
    from fetch_genres_frame [OF fg] have m2: "movies w2 = rows" by simp
    from fetch_genres_distinct [of ?w1 L] d fg
    have dg: "distinct (map genre_pk (genres w2))" "distinct (map genre_tmdb_id (genres w2))"
      by simp_all
    let ?w3 = "w2\<lparr>movie_genres := filter (\<lambda>l. link_movie l \<noteq> movie_pk m0) (movie_genres w2)\<rparr>"
    let ?ls0 = "filter (\<lambda>l. link_movie l \<noteq> movie_pk m0) (movie_genres w2)"
    have mt1: "(case res of
                  Inl e \<Rightarrow> (w2, Inl e)
                | Inr gs \<Rightarrow>
                    (case py_iter gl of
                       Inl e \<Rightarrow> (?w3, Inl e)
                     | Inr ids \<Rightarrow>
                         (case add_genre_links L (genres ?w3) (movie_pk m0) (movie_genres ?w3) ids of
                            (ls, Inl e) \<Rightarrow> (?w3\<lparr>movie_genres := ls\<rparr>, Inl e)
                          | (ls, Inr u) \<Rightarrow> (?w3\<lparr>movie_genres := ls\<rparr>, Inr m0)))) = (w', Inr m)"
      using mt by (simp add: merge_try_def rd jid u gl True fg Let_def)
    then obtain gs where res: "res = Inr gs" by (cases res) simp_all
    with mt1 obtain ids where ids: "py_iter gl = Inr ids" by (cases "py_iter gl") simp_all
    obtain ls r where al0: "add_genre_links L (genres w2) (movie_pk m0) ?ls0 ids = (ls, r)"
      by (cases "add_genre_links L (genres w2) (movie_pk m0) ?ls0 ids")
    with mt1 res ids obtain u' where r: "r = Inr u'" by (cases r) simp_all
    from mt1 res ids al0 r have w': "w' = ?w3\<lparr>movie_genres := ls\<rparr>" and m: "m = m0" by simp_all
    from al0 r have al: "add_genre_links L (genres w2) (movie_pk m0) ?ls0 ids = (ls, Inr u')" by simp
    have "{l \<in> set ls. link_movie l = movie_pk m0} =
          {\<lparr>link_movie = movie_pk m0, link_genre = genre_pk g\<rparr> | g.
             g \<in> set (genres w2) \<and> (\<exists>j \<in> set ids. int_field L j = Some (genre_tmdb_id g))}"
      unfolding add_genre_links_set [OF al] by auto
    with ids m2 dm dg show ?thesis unfolding w' m by (auto simp: store_ok_def True)
  qed
qed

text \<open>
  Claim C1, amended. Take a store that satisfies its uniqueness constraints and a record
  whose merge returns the movie \<open>m\<close>, a row of the store after the merge, and let \<open>gl\<close> be
  the record's genre-ID list. If
  \<open>gl\<close> is not empty, then after the merge the genres associated with \<open>m\<close> are exactly the
  locally existing genres (after the catalog fetch) whose provider ID is named in \<open>gl\<close>,
  whatever \<open>m\<close> was associated with before. If \<open>gl\<close> is empty or absent, the merge leaves
  the link table and the genre table as they were. The store after the merge satisfies
  the constraints again, so the statement applies to each merge of a sequence.
\<close>

theorem merge_replaces_genre_links:
  assumes "store_ok w"
      and "snd (create_or_update_movie L w (JDict kvs) d) = Inr (Some m)"
      and "genre_ids_of kvs = Inr gl"
  shows "let w' = fst (create_or_update_movie L w (JDict kvs) d) in
           store_ok w' \<and> m \<in> set (movies w') \<and>
           (if truthy gl then
              \<exists>ids. py_iter gl = Inr ids \<and>
                set (genres_of_movie w' (movie_pk m)) =
                  {g \<in> set (genres w'). \<exists>j \<in> set ids. int_field L j = Some (genre_tmdb_id g)}
            else movie_genres w' = movie_genres w \<and> genres w' = genres w)"
proof -
  obtain w' res where mt: "merge_try L w kvs = (w', res)" by (cases "merge_try L w kvs")
  with assms(2) have res: "res = Inr m" and
    cw: "fst (create_or_update_movie L w (JDict kvs) d) = w'"
    by (auto simp: create_or_update_movie_def split: sum.splits)
  from merge_try_links [OF assms(1) mt [unfolded res] assms(3)]
  have ok': "store_ok w'" and mem: "m \<in> set (movies w')" and
    body: "if truthy gl then
            \<exists>ids. py_iter gl = Inr ids \<and>
              {l \<in> set (movie_genres w'). link_movie l = movie_pk m} =
                {\<lparr>link_movie = movie_pk m, link_genre = genre_pk g\<rparr> | g.
                   g \<in> set (genres w') \<and> (\<exists>j \<in> set ids. int_field L j = Some (genre_tmdb_id g))}
          else movie_genres w' = movie_genres w \<and> genres w' = genres w"
    by simp_all
  from ok' have inj: "inj_on genre_pk (set (genres w'))"
    by (simp add: store_ok_def distinct_map)
  show ?thesis
  proof (cases "truthy gl")
    case False
    with ok' mem body show ?thesis unfolding Let_def cw by simp
  next
    case True
    with body obtain ids where ids: "py_iter gl = Inr ids" and
      links: "{l \<in> set (movie_genres w'). link_movie l = movie_pk m} =
                {\<lparr>link_movie = movie_pk m, link_genre = genre_pk g\<rparr> | g.
                   g \<in> set (genres w') \<and> (\<exists>j \<in> set ids. int_field L j = Some (genre_tmdb_id g))}"
      by auto
    have "set (genres_of_movie w' (movie_pk m)) =
            {g \<in> set (genres w'). \<exists>j \<in> set ids. int_field L j = Some (genre_tmdb_id g)}"
    proof (intro set_eqI iffI)
      fix g assume "g \<in> set (genres_of_movie w' (movie_pk m))"
      then obtain l where g: "g \<in> set (genres w')" and
        l: "l \<in> set (movie_genres w')" "link_movie l = movie_pk m" "link_genre l = genre_pk g"
        by (auto simp: genres_of_movie_def)
      then have "l \<in> {l \<in> set (movie_genres w'). link_movie l = movie_pk m}" by simp
      then obtain g' where g': "l = \<lparr>link_movie = movie_pk m, link_genre = genre_pk g'\<rparr>"
        "g' \<in> set (genres w')" "\<exists>j \<in> set ids. int_field L j = Some (genre_tmdb_id g')"
        unfolding links by blast
      with l have "genre_pk g' = genre_pk g" by simp
      with inj g g'(2) have "g' = g" by (auto dest: inj_onD)
      with g g'(3) show "g \<in> {g \<in> set (genres w'). \<exists>j \<in> set ids. int_field L j = Some (genre_tmdb_id g)}"
        by simp
    next
      fix g assume "g \<in> {g \<in> set (genres w'). \<exists>j \<in> set ids. int_field L j = Some (genre_tmdb_id g)}"
      then have g: "g \<in> set (genres w')" "\<exists>j \<in> set ids. int_field L j = Some (genre_tmdb_id g)"
        by simp_all
      then have "\<lparr>link_movie = movie_pk m, link_genre = genre_pk g\<rparr> \<in>
                 {l \<in> set (movie_genres w'). link_movie l = movie_pk m}"
        unfolding links by blast
      with g show "g \<in> set (genres_of_movie w' (movie_pk m))"
        by (force simp: genres_of_movie_def)
    qed
    with ok' mem ids True show ?thesis unfolding Let_def cw by simp
  qed
qed

theorem merge_replaces_genre_links_witness:
  "store_ok empty_world \<and>
   snd (create_or_update_movie demo_env empty_world (JDict heat_action) False) = Inr (Some heat_row) \<and>
   genre_ids_of heat_action = Inr (JList [JInt 28, JInt 77]) \<and>
   set (genres_of_movie (fst (create_or_update_movie demo_env empty_world (JDict heat_action) False)) 1) =
     {\<lparr>genre_pk = 1, genre_tmdb_id = 28, name = ''Action''\<rparr>}"
proof -
  have h1: "store_ok empty_world" by (simp add: store_ok_def empty_world_def)
  have h2: "snd (create_or_update_movie demo_env empty_world (JDict heat_action) False) = Inr (Some heat_row)"
    by (simp add: heat_action_def heat_row_def run_defs)
  have h3: "genre_ids_of heat_action = Inr (JList [JInt 28, JInt 77])"
    by (simp add: heat_action_def run_defs)
  have g: "genres (fst (create_or_update_movie demo_env empty_world (JDict heat_action) False)) =
           [\<lparr>genre_pk = 1, genre_tmdb_id = 28, name = ''Action''\<rparr>,
            \<lparr>genre_pk = 2, genre_tmdb_id = 18, name = ''Drama''\<rparr>]"
    by (simp add: heat_action_def run_defs)
  have pk: "movie_pk heat_row = 1" by (simp add: heat_row_def)
  from merge_replaces_genre_links [OF h1 h2 h3]
  have "set (genres_of_movie (fst (create_or_update_movie demo_env empty_world (JDict heat_action) False)) 1) =
          {g \<in> set (genres (fst (create_or_update_movie demo_env empty_world (JDict heat_action) False))).
             \<exists>j \<in> set [JInt 28, JInt 77]. int_field demo_env j = Some (genre_tmdb_id g)}"
    by (simp add: Let_def pk)
  also have "\<dots> = {\<lparr>genre_pk = 1, genre_tmdb_id = 28, name = ''Action''\<rparr>}"
    unfolding g by (auto simp: demo_env_def typed_int_def)
  finally show ?thesis using h1 h2 h3 by simp
qed

text \<open>
  Claim C1 fails as stated. A record for provider ID 1 naming genre 28 is merged, then a
  record for the same ID with the empty genre-ID list. Both merges return the movie, and
  the movie is still associated with genre 28 (Action): line 169 skips the replacement
  of the links when the list is empty.
\<close>

theorem empty_genre_list_keeps_links:
  "snd (create_or_update_movie demo_env empty_world (JDict heat_action) False) = Inr (Some heat_row) \<and>
   genre_ids_of heat_no_genres = Inr (JList []) \<and>
   snd (create_or_update_movie demo_env
          (fst (create_or_update_movie demo_env empty_world (JDict heat_action) False))
          (JDict heat_no_genres) False) = Inr (Some heat_row) \<and>
   genres_of_movie
     (fst (create_or_update_movie demo_env
            (fst (create_or_update_movie demo_env empty_world (JDict heat_action) False))
            (JDict heat_no_genres) False)) 1 =
     [\<lparr>genre_pk = 1, genre_tmdb_id = 28, name = ''Action''\<rparr>]"
  by (simp add: heat_action_def heat_no_genres_def heat_row_def genres_of_movie_def run_defs)

end
